theory Spec2Isabelle
  imports Complex_Main
begin

section \<open>Data model (models.py)\<close>

text \<open>
  The pydantic models of \<^verbatim>\<open>models.py\<close> become records; a model that inherits from
  another one extends its record. A \<^verbatim>\<open>Literal[...]\<close> of a validated model is a
  datatype. Field names that two models share carry a suffix naming the model
  (\<open>id_user\<close>, \<open>id_afap\<close>, \<open>id_insp\<close>, \<open>id_log\<close>, ...).

  A \<^verbatim>\<open>datetime\<close> is the number of microseconds since the epoch; the stored
  documents keep dates as ISO strings and every handler parses them back, which is the
  identity on this representation. A Python \<^verbatim>\<open>float\<close> that is only carried
  through is a real number.
\<close>

type_synonym datetime = int

definition timedelta_days :: "int \<Rightarrow> int" where
  "timedelta_days d = d * 86400000000"

datatype role = Ciudadano | Inspector | Administrador

record user_base =
  email :: string
  cuit_cuil :: string
  nombre :: string
  apellido :: string
  telefono :: string
  role :: role

record user = user_base +
  id_user :: string
  created_at_user :: datetime

datatype titular_tipo = Fisica | Juridica

record afap_base =
  solicitante_nombre :: string
  solicitante_apellido :: string
  solicitante_cuit_cuil :: string
  solicitante_telefono :: string
  solicitante_email :: string
  titular_tipo :: titular_tipo
  titular_nombre :: "string option"
  titular_cuit :: "string option"
  cuenta_abl :: string
  domicilio_calle :: string
  domicilio_altura :: string
  domicilio_piso :: "string option"
  domicilio_depto :: "string option"
  domicilio_local :: "string option"
  domicilio_localidad :: string
  rubro_tipo :: string
  rubro_subrubro :: string
  rubro_descripcion :: string
  metros_cuadrados :: real
  techos_cielorasos :: string
  pisos_material :: string
  tiene_sanitarios :: bool
  sanitarios_acceso_directo :: bool
  sanitarios_antecamara :: bool
  sanitarios_lavabos_m :: int
  sanitarios_retretes_m :: int
  sanitarios_lavabos_f :: int
  sanitarios_retretes_f :: int
  sanitarios_migitorios :: int
  sanitarios_discapacitados :: bool
  cantidad_trabajadores :: int
  documentos_urls :: "string list"

text \<open>
  \<open>estado\<close> of a stored permit is a plain string: the handler that changes it writes
  its \<^verbatim>\<open>str\<close> parameter into the document without building an \<^verbatim>\<open>AFAP\<close>
  model. The \<^verbatim>\<open>Literal\<close> that \<^verbatim>\<open>AFAP.estado\<close> declares is \<open>AFAP_estado_literal\<close>.
\<close>

record afap = afap_base +
  id_afap :: string
  numero_afap :: int
  user_id :: string
  estado :: string
  fecha_solicitud :: datetime
  fecha_vencimiento :: "datetime option"
  observaciones :: "string option"
  inspector_asignado :: "string option"

definition AFAP_estado_literal :: "string list" where
  "AFAP_estado_literal = [''pendiente'', ''aprobado'', ''rechazado'', ''inspeccion'']"

datatype inspeccion_estado = Programada | Completada | Cancelada

datatype inspeccion_resultado = Aprobado | Rechazado | Requiere_correccion

record inspeccion_base =
  afap_id :: string
  inspector_id :: string
  fecha_programada :: datetime
  observaciones_insp :: "string option"

record inspeccion = inspeccion_base +
  id_insp :: string
  estado_insp :: inspeccion_estado
  fecha_realizada :: "datetime option"
  resultado :: "inspeccion_resultado option"
  notas :: "string option"
  created_at_insp :: datetime

record download_log =
  id_log :: string
  afap_id_log :: string
  afap_numero :: int
  user_id_log :: string
  user_nombre :: string
  user_email :: string
  timestamp :: datetime
  ip_address :: "string option"

section \<open>The store and the side channels\<close>

text \<open>
  A MongoDB collection is the list of its documents in the order a cursor yields them;
  \<^verbatim>\<open>insert_one\<close> appends. The calls of the driver that the handlers use:
  \<^verbatim>\<open>find(query)\<close>, \<^verbatim>\<open>.to_list(n)\<close> (at most \<open>n\<close> documents),
  \<^verbatim>\<open>find_one(query)\<close> (the first match or \<^verbatim>\<open>None\<close>),
  \<^verbatim>\<open>find_one({}, sort=[(key, -1)])\<close> (a document with the greatest key) and
  \<^verbatim>\<open>update_one(query, {"$set": ...})\<close> (changes the first match and reports
  \<^verbatim>\<open>matched_count\<close>). A query is the predicate it denotes.
\<close>

definition find_docs :: "'d list \<Rightarrow> ('d \<Rightarrow> bool) \<Rightarrow> 'd list" where
  "find_docs coll query = filter query coll"

definition to_list :: "nat \<Rightarrow> 'd list \<Rightarrow> 'd list" where
  "to_list n cursor = take n cursor"

definition find_one :: "'d list \<Rightarrow> ('d \<Rightarrow> bool) \<Rightarrow> 'd option" where
  "find_one coll query = List.find query coll"

fun find_one_sort_desc :: "('d \<Rightarrow> int) \<Rightarrow> 'd list \<Rightarrow> 'd option" where
  "find_one_sort_desc key [] = None"
| "find_one_sort_desc key (d # ds) =
     (case find_one_sort_desc key ds of
        None \<Rightarrow> Some d
      | Some m \<Rightarrow> if key m \<le> key d then Some d else Some m)"

fun update_one :: "'d list \<Rightarrow> ('d \<Rightarrow> bool) \<Rightarrow> ('d \<Rightarrow> 'd) \<Rightarrow> 'd list \<times> nat" where
  "update_one [] query set_fields = ([], 0)"
| "update_one (d # ds) query set_fields =
     (if query d then (set_fields d # ds, 1)
      else (case update_one ds query set_fields of (ds', matched_count) \<Rightarrow> (d # ds', matched_count)))"

definition insert_one :: "'d list \<Rightarrow> 'd \<Rightarrow> 'd list" where
  "insert_one coll doc = coll @ [doc]"

text \<open>
  The two notification calls of \<^verbatim>\<open>email_service.py\<close>, recorded with their
  arguments when a handler makes them, and the records a handler writes to its logger.
\<close>

datatype notification =
    Certificate_email string string int afap
  | Status_notification string string int string string "string option"

datatype log_record =
    Info_certificate_email_sent int
  | Error_sending_certificate_email
  | Error_sending_status_notification
  | Info_certificate_downloaded int string
  | Error_logging_download
  | Error_generating_certificate

record state =
  db_users :: "user list"
  db_afap :: "afap list"
  db_inspecciones :: "inspeccion list"
  db_download_logs :: "download_log list"
  sent :: "notification list"
  logged :: "log_record list"

text \<open>
  \<^verbatim>\<open>HTTPException\<close> with status 404, 403, 400 and 500, in the words of the
  specification's error taxonomy.
\<close>

datatype error = NotFound | Forbidden | InvalidState | InternalError

section \<open>Handlers (server.py)\<close>

subsection \<open>\<^verbatim>\<open>create_afap\<close>\<close>

text \<open>
  The handler awaits the store twice: once to read the permit with the greatest number
  (lines 123-124) and once to insert the new document (line 140). The two parts are
  separate definitions, so that an execution in which another request runs between the
  two awaits can be written down; \<open>create_afap\<close> is the handler run without such a
  request in between. The fresh UUID and the two clock readings
  (\<^verbatim>\<open>datetime.now(timezone.utc)\<close> at line 127, \<^verbatim>\<open>datetime.utcnow\<close>
  as the default of \<open>fecha_solicitud\<close>) are parameters.
\<close>

definition create_afap_next_number :: "state \<Rightarrow> int" where
  "create_afap_next_number s =
     (case find_one_sort_desc numero_afap (db_afap s) of
        Some last_afap \<Rightarrow> numero_afap last_afap + 1
      | None \<Rightarrow> 1001)"

definition create_afap_insert ::
  "state \<Rightarrow> afap_base \<Rightarrow> user \<Rightarrow> string \<Rightarrow> datetime \<Rightarrow> datetime \<Rightarrow> int \<Rightarrow> afap \<times> state" where
  "create_afap_insert s afap_data current_user uuid now utcnow next_number =
     (let vencimiento = now + timedelta_days 30;
          new_afap = afap_base.extend afap_data
            (afap.fields uuid next_number (id_user current_user) ''pendiente'' utcnow
               (Some vencimiento) None None)
      in (new_afap, s\<lparr>db_afap := insert_one (db_afap s) new_afap\<rparr>))"

definition create_afap ::
  "state \<Rightarrow> afap_base \<Rightarrow> user \<Rightarrow> string \<Rightarrow> datetime \<Rightarrow> datetime \<Rightarrow> afap \<times> state" where
  "create_afap s afap_data current_user uuid now utcnow =
     create_afap_insert s afap_data current_user uuid now utcnow (create_afap_next_number s)"

subsection \<open>\<^verbatim>\<open>get_afaps\<close> and \<^verbatim>\<open>get_afap\<close>\<close>

text \<open>
  The route of \<^verbatim>\<open>get_afaps\<close> declares \<^verbatim>\<open>response_model=List[AFAP]\<close>:
  the framework validates the list the handler returns against the \<^verbatim>\<open>AFAP\<close>
  model before it answers, and answers with status 500 when a document does not
  validate. Of a stored permit only \<open>estado\<close> can fail to validate, since
  \<^verbatim>\<open>update_afap_estado\<close> writes it unchecked; \<open>response_model_List_AFAP\<close> is that
  validation. The route of \<^verbatim>\<open>get_inspecciones\<close> declares
  \<^verbatim>\<open>List[Inspeccion]\<close>; inspections are stored validated and no handler changes
  them, so there the validation always succeeds. The role of a \<^verbatim>\<open>User\<close> is
  validated against its three values when the user is loaded, so the \<^verbatim>\<open>else\<close>
  branch is the citizen's.
\<close>

definition response_model_List_AFAP :: "afap list \<Rightarrow> error + afap list" where
  "response_model_List_AFAP afaps =
     (if list_all (\<lambda>a. estado a \<in> set AFAP_estado_literal) afaps then Inr afaps
      else Inl InternalError)"

definition get_afaps :: "state \<Rightarrow> user \<Rightarrow> error + afap list" where
  "get_afaps s current_user =
     (let query =
        (if role current_user = Administrador \<or> role current_user = Inspector
         then (\<lambda>a. True)
         else (\<lambda>a. user_id a = id_user current_user));
          afaps = to_list 1000 (find_docs (db_afap s) query)
      in response_model_List_AFAP afaps)"

text \<open>
  \<^verbatim>\<open>get_afap\<close> ends with \<^verbatim>\<open>AFAP(**afap)\<close>, which validates the stored
  \<open>estado\<close> against the model's \<^verbatim>\<open>Literal\<close>; a validation error is not handled
  and surfaces as status 500.
\<close>

definition get_afap :: "state \<Rightarrow> string \<Rightarrow> user \<Rightarrow> error + afap" where
  "get_afap s afap_ident current_user =
     (case find_one (db_afap s) (\<lambda>a. id_afap a = afap_ident) of
        None \<Rightarrow> Inl NotFound
      | Some a \<Rightarrow>
          if role current_user = Ciudadano \<and> user_id a \<noteq> id_user current_user
          then Inl Forbidden
          else if estado a \<in> set AFAP_estado_literal then Inr a
          else Inl InternalError)"

subsection \<open>\<^verbatim>\<open>update_afap_estado\<close>\<close>

text \<open>
  Each notification call sits in its own \<^verbatim>\<open>try\<close>; whether the call raises is a
  parameter of the handler. A call that is made is recorded in \<open>sent\<close> whatever its
  outcome.
\<close>

record estado_response =
  message :: string
  old_estado :: string
  new_estado :: string
  email_sent :: bool

definition truthy :: "string option \<Rightarrow> bool" where
  "truthy v = (case v of None \<Rightarrow> False | Some x \<Rightarrow> x \<noteq> [])"

definition try_send_certificate_email ::
  "state \<Rightarrow> bool \<Rightarrow> string \<Rightarrow> string \<Rightarrow> int \<Rightarrow> afap \<Rightarrow> state" where
  "try_send_certificate_email s raises user_mail user_name numero afap_actual =
     (let s' = s\<lparr>sent := sent s @ [Certificate_email user_mail user_name numero afap_actual]\<rparr>
      in if raises
         then s'\<lparr>logged := logged s' @ [Error_sending_certificate_email]\<rparr>
         else s'\<lparr>logged := logged s' @ [Info_certificate_email_sent numero]\<rparr>)"

definition try_send_status_notification ::
  "state \<Rightarrow> bool \<Rightarrow> string \<Rightarrow> string \<Rightarrow> int \<Rightarrow> string \<Rightarrow> string \<Rightarrow> string option \<Rightarrow> state" where
  "try_send_status_notification s raises user_mail user_name numero old new obs =
     (let s' = s\<lparr>sent := sent s @ [Status_notification user_mail user_name numero old new obs]\<rparr>
      in if raises
         then s'\<lparr>logged := logged s' @ [Error_sending_status_notification]\<rparr>
         else s')"

definition update_afap_estado ::
  "state \<Rightarrow> string \<Rightarrow> string \<Rightarrow> string option \<Rightarrow> user \<Rightarrow> bool \<Rightarrow> bool
     \<Rightarrow> (error + estado_response) \<times> state" where
  "update_afap_estado s afap_ident estado' observaciones' current_user
       certificate_raises status_raises =
     (if role current_user \<noteq> Inspector \<and> role current_user \<noteq> Administrador
      then (Inl Forbidden, s)
      else
        case find_one (db_afap s) (\<lambda>a. id_afap a = afap_ident) of
          None \<Rightarrow> (Inl NotFound, s)
        | Some afap_actual \<Rightarrow>
            let old = estado afap_actual;
                update_data =
                  (\<lambda>a. if truthy observaciones'
                       then a\<lparr>estado := estado', observaciones := observaciones'\<rparr>
                       else a\<lparr>estado := estado'\<rparr>);
                result = update_one (db_afap s) (\<lambda>a. id_afap a = afap_ident) update_data;
                s1 = s\<lparr>db_afap := fst result\<rparr>
            in if snd result = 0 then (Inl NotFound, s1)
               else
                 case find_one (db_users s1) (\<lambda>u. id_user u = user_id afap_actual) of
                   None \<Rightarrow>
                     (Inr \<lparr>message = ''Estado actualizado correctamente'',
                           old_estado = old, new_estado = estado', email_sent = False\<rparr>, s1)
                 | Some user_solicitante \<Rightarrow>
                     let user_name = nombre user_solicitante @ '' '' @ apellido user_solicitante;
                         user_mail = email user_solicitante;
                         s2 = (if estado' = ''aprobado'' \<and> old \<noteq> ''aprobado''
                               then try_send_certificate_email s1 certificate_raises user_mail
                                      user_name (numero_afap afap_actual) afap_actual
                               else s1);
                         s3 = try_send_status_notification s2 status_raises user_mail user_name
                                (numero_afap afap_actual) old estado' observaciones'
                     in (Inr \<lparr>message = ''Estado actualizado correctamente'',
                              old_estado = old, new_estado = estado', email_sent = True\<rparr>, s3))"

subsection \<open>\<^verbatim>\<open>download_certificado\<close>\<close>

text \<open>
  The renderer \<^verbatim>\<open>generate_afap_certificate\<close> draws with an external PDF library
  and reads the clock; it is a parameter that yields the bytes of the document, or
  \<open>None\<close> when it raises. Whether writing the download log raises is a parameter too,
  as are the UUID and the timestamp of the log entry. The response's headers only name
  the file and are left out.
\<close>

definition download_certificado ::
  "state \<Rightarrow> string \<Rightarrow> user \<Rightarrow> string \<Rightarrow> datetime \<Rightarrow> bool \<Rightarrow> (afap \<Rightarrow> string option)
     \<Rightarrow> (error + string) \<times> state" where
  "download_certificado s afap_ident current_user uuid utcnow log_raises generate_afap_certificate =
     (case find_one (db_afap s) (\<lambda>a. id_afap a = afap_ident) of
        None \<Rightarrow> (Inl NotFound, s)
      | Some a \<Rightarrow>
          if estado a \<noteq> ''aprobado'' then (Inl InvalidState, s)
          else if role current_user = Ciudadano \<and> user_id a \<noteq> id_user current_user
          then (Inl Forbidden, s)
          else
            let entry = \<lparr>id_log = uuid, afap_id_log = afap_ident, afap_numero = numero_afap a,
                         user_id_log = id_user current_user,
                         user_nombre = nombre current_user @ '' '' @ apellido current_user,
                         user_email = email current_user, timestamp = utcnow,
                         ip_address = None\<rparr>;
                s1 = (if log_raises
                      then s\<lparr>logged := logged s @ [Error_logging_download]\<rparr>
                      else s\<lparr>db_download_logs := insert_one (db_download_logs s) entry,
                             logged := logged s @
                               [Info_certificate_downloaded (numero_afap a) (email current_user)]\<rparr>)
            in case generate_afap_certificate a of
                 None \<Rightarrow>
                   (Inl InternalError, s1\<lparr>logged := logged s1 @ [Error_generating_certificate]\<rparr>)
               | Some pdf_bytes \<Rightarrow> (Inr pdf_bytes, s1))"

subsection \<open>\<^verbatim>\<open>get_inspecciones\<close>\<close>

definition get_inspecciones :: "state \<Rightarrow> user \<Rightarrow> inspeccion list" where
  "get_inspecciones s current_user =
     (let query =
        (if role current_user = Inspector
         then (\<lambda>i. inspector_id i = id_user current_user)
         else if role current_user = Administrador
         then (\<lambda>i. True)
         else
           (let user_afaps =
                  to_list 1000 (find_docs (db_afap s) (\<lambda>a. user_id a = id_user current_user));
                afap_ids = map id_afap user_afaps
            in (\<lambda>i. afap_id i \<in> set afap_ids)))
      in to_list 1000 (find_docs (db_inspecciones s) query))"

subsection \<open>\<^verbatim>\<open>verificar_certificado_publico\<close>\<close>

text \<open>
  The response is the dictionary the handler returns, as the list of its items in the
  order they are written. \<open>JDate d\<close> stands for the ISO string of the datetime \<open>d\<close>.
  The handler turns any other exception into status 500; on documents that carry every
  field of the \<^verbatim>\<open>AFAP\<close> model, as all stored permits do, none is raised.
\<close>

datatype json = JNull | JStr string | JInt int | JFloat real | JDate datetime

definition json_opt_str :: "string option \<Rightarrow> json" where
  "json_opt_str v = (case v of None \<Rightarrow> JNull | Some x \<Rightarrow> JStr x)"

definition verificar_certificado_publico :: "state \<Rightarrow> string \<Rightarrow> error + (string \<times> json) list" where
  "verificar_certificado_publico s afap_ident =
     (case find_one (db_afap s) (\<lambda>a. id_afap a = afap_ident) of
        None \<Rightarrow> Inl NotFound
      | Some a \<Rightarrow>
          Inr [(''id'', JStr (id_afap a)),
               (''numero_afap'', JInt (numero_afap a)),
               (''estado'', JStr (estado a)),
               (''titular_nombre'', json_opt_str (titular_nombre a)),
               (''titular_cuit'', json_opt_str (titular_cuit a)),
               (''domicilio_calle'', JStr (domicilio_calle a)),
               (''domicilio_altura'', JStr (domicilio_altura a)),
               (''domicilio_local'', json_opt_str (domicilio_local a)),
               (''domicilio_localidad'', JStr (domicilio_localidad a)),
               (''rubro_tipo'', JStr (rubro_tipo a)),
               (''rubro_descripcion'', JStr (rubro_descripcion a)),
               (''metros_cuadrados'', JFloat (metros_cuadrados a)),
               (''fecha_solicitud'', JDate (fecha_solicitud a)),
               (''fecha_vencimiento'',
                  (case fecha_vencimiento a of None \<Rightarrow> JNull | Some d \<Rightarrow> JDate d)),
               (''observaciones'', json_opt_str (observaciones a))])"

section \<open>Demo data (seed_data.py)\<close>

text \<open>
  The database that \<^verbatim>\<open>seed_data.py\<close> writes, at the clock reading \<open>seed_now\<close>;
  accents are dropped from the strings, and the password hashes, which no handler here
  reads, are left out. The theorems below are tried on it.
\<close>

definition seed_now :: datetime where
  "seed_now = 1762214400000000"

definition seed_user :: "string \<Rightarrow> string \<Rightarrow> string \<Rightarrow> string \<Rightarrow> string \<Rightarrow> string \<Rightarrow> role \<Rightarrow> user" where
  "seed_user ident mail cuit nom ape tel r =
     \<lparr>email = mail, cuit_cuil = cuit, nombre = nom, apellido = ape, telefono = tel, role = r,
      id_user = ident, created_at_user = seed_now\<rparr>"

definition user_1 :: user where
  "user_1 = seed_user ''user-1'' ''ciudadano@argentina.gob.ar'' ''20123456789'' ''Juan'' ''Perez''
     ''+54 11 1234-5678'' Ciudadano"

definition user_2 :: user where
  "user_2 = seed_user ''user-2'' ''inspector@argentina.gob.ar'' ''20987654321'' ''Maria''
     ''Gonzalez'' ''+54 11 9876-5432'' Inspector"

definition user_3 :: user where
  "user_3 = seed_user ''user-3'' ''admin@argentina.gob.ar'' ''20555555555'' ''Carlos''
     ''Rodriguez'' ''+54 11 5555-5555'' Administrador"

definition user_4 :: user where
  "user_4 = seed_user ''user-4'' ''comerciante@email.com'' ''20111222333'' ''Ana'' ''Martinez''
     ''+54 11 1112-2233'' Ciudadano"

definition afap_data_1 :: afap_base where
  "afap_data_1 =
     \<lparr>solicitante_nombre = ''Juan'', solicitante_apellido = ''Perez'',
      solicitante_cuit_cuil = ''20123456789'', solicitante_telefono = ''+54 11 1234-5678'',
      solicitante_email = ''ciudadano@buenosaires.gov'',
      titular_tipo = Fisica, titular_nombre = Some ''Juan Perez'',
      titular_cuit = Some ''20123456789'', cuenta_abl = ''12345678'',
      domicilio_calle = ''Av. Evergreen Terrace'', domicilio_altura = ''742'',
      domicilio_piso = None, domicilio_depto = None, domicilio_local = Some ''PB'',
      domicilio_localidad = ''Buenos Aires'',
      rubro_tipo = ''Comercio Minorista'', rubro_subrubro = ''Panaderia y Confiteria'',
      rubro_descripcion = ''Panaderia artesanal con venta de productos de pasteleria'',
      metros_cuadrados = 85.5,
      techos_cielorasos = ''Cielorraso de yeso'', pisos_material = ''Ceramico antideslizante'',
      tiene_sanitarios = True, sanitarios_acceso_directo = True, sanitarios_antecamara = True,
      sanitarios_lavabos_m = 1, sanitarios_retretes_m = 1, sanitarios_lavabos_f = 1,
      sanitarios_retretes_f = 1, sanitarios_migitorios = 1, sanitarios_discapacitados = True,
      cantidad_trabajadores = 3, documentos_urls = []\<rparr>"

definition afap_data_2 :: afap_base where
  "afap_data_2 =
     \<lparr>solicitante_nombre = ''Ana'', solicitante_apellido = ''Martinez'',
      solicitante_cuit_cuil = ''20111222333'', solicitante_telefono = ''+54 11 1112-2233'',
      solicitante_email = ''comerciante@email.com'',
      titular_tipo = Fisica, titular_nombre = Some ''Ana Martinez'',
      titular_cuit = Some ''20111222333'', cuenta_abl = ''87654321'',
      domicilio_calle = ''Boulevard Principal'', domicilio_altura = ''1234'',
      domicilio_piso = None, domicilio_depto = None, domicilio_local = Some ''Local 2'',
      domicilio_localidad = ''Buenos Aires'',
      rubro_tipo = ''Comercio Minorista'', rubro_subrubro = ''Indumentaria y Accesorios'',
      rubro_descripcion = ''Boutique de ropa y accesorios para damas'',
      metros_cuadrados = 120,
      techos_cielorasos = ''Losa de hormigon armado'', pisos_material = ''Porcelanato'',
      tiene_sanitarios = True, sanitarios_acceso_directo = True, sanitarios_antecamara = False,
      sanitarios_lavabos_m = 1, sanitarios_retretes_m = 1, sanitarios_lavabos_f = 1,
      sanitarios_retretes_f = 1, sanitarios_migitorios = 0, sanitarios_discapacitados = False,
      cantidad_trabajadores = 2, documentos_urls = []\<rparr>"

definition afap_data_3 :: afap_base where
  "afap_data_3 =
     \<lparr>solicitante_nombre = ''Juan'', solicitante_apellido = ''Perez'',
      solicitante_cuit_cuil = ''20123456789'', solicitante_telefono = ''+54 11 1234-5678'',
      solicitante_email = ''ciudadano@buenosaires.gov'',
      titular_tipo = Juridica, titular_nombre = Some ''Cafeteria La Esquina SRL'',
      titular_cuit = Some ''30123456789'', cuenta_abl = ''11223344'',
      domicilio_calle = ''Calle Principal'', domicilio_altura = ''999'',
      domicilio_piso = None, domicilio_depto = None, domicilio_local = Some ''Esquina'',
      domicilio_localidad = ''Buenos Aires'',
      rubro_tipo = ''Gastronomia'', rubro_subrubro = ''Cafeteria y Bar'',
      rubro_descripcion = ''Cafeteria con servicio de desayunos y meriendas'',
      metros_cuadrados = 95,
      techos_cielorasos = ''Cielorraso suspendido'', pisos_material = ''Ceramico'',
      tiene_sanitarios = True, sanitarios_acceso_directo = True, sanitarios_antecamara = True,
      sanitarios_lavabos_m = 1, sanitarios_retretes_m = 1, sanitarios_lavabos_f = 1,
      sanitarios_retretes_f = 1, sanitarios_migitorios = 1, sanitarios_discapacitados = True,
      cantidad_trabajadores = 4, documentos_urls = []\<rparr>"

definition afap_1 :: afap where
  "afap_1 = afap_base.extend afap_data_1
     (afap.fields ''afap-1'' 1001 ''user-1'' ''aprobado''
        (seed_now - timedelta_days 5) (Some (seed_now + timedelta_days 25))
        (Some ''Aprobado - Cumple con todos los requisitos'') (Some ''user-2''))"

definition afap_2 :: afap where
  "afap_2 = afap_base.extend afap_data_2
     (afap.fields ''afap-2'' 1002 ''user-4'' ''pendiente''
        (seed_now - timedelta_days 2) (Some (seed_now + timedelta_days 28)) None None)"

definition afap_3 :: afap where
  "afap_3 = afap_base.extend afap_data_3
     (afap.fields ''afap-3'' 1003 ''user-1'' ''inspeccion''
        (seed_now - timedelta_days 10) (Some (seed_now + timedelta_days 20))
        (Some ''Programada inspeccion para verificar condiciones de seguridad'')
        (Some ''user-2''))"

definition insp_1 :: inspeccion where
  "insp_1 =
     \<lparr>afap_id = ''afap-3'', inspector_id = ''user-2'',
      fecha_programada = seed_now + timedelta_days 3,
      observaciones_insp = Some ''Verificar instalaciones electricas y salidas de emergencia'',
      id_insp = ''insp-1'', estado_insp = Programada, fecha_realizada = None,
      resultado = None, notas = None, created_at_insp = seed_now\<rparr>"

definition seed_state :: state where
  "seed_state =
     \<lparr>db_users = [user_1, user_2, user_3, user_4],
      db_afap = [afap_1, afap_2, afap_3],
      db_inspecciones = [insp_1],
      db_download_logs = [],
      sent = [],
      logged = []\<rparr>"

section \<open>Executions\<close>

text \<open>
  Requests that change the permit collection, handled one after the other: each handler
  runs from its first line to its last before the next request starts.
\<close>

datatype request =
    Create_afap afap_base user string datetime datetime
  | Update_afap_estado string string "string option" user bool bool

fun handle_request :: "state \<Rightarrow> request \<Rightarrow> state" where
  "handle_request s (Create_afap afap_data current_user uuid now utcnow) =
     snd (create_afap s afap_data current_user uuid now utcnow)"
| "handle_request s (Update_afap_estado afap_ident estado' observaciones' current_user
       certificate_raises status_raises) =
     snd (update_afap_estado s afap_ident estado' observaciones' current_user
            certificate_raises status_raises)"

definition run_requests :: "state \<Rightarrow> request list \<Rightarrow> state" where
  "run_requests s requests = foldl handle_request s requests"

text \<open>
  Every handler gets \<^verbatim>\<open>current_user\<close> from \<^verbatim>\<open>get_current_user\<close>, which
  loads it from \<^verbatim>\<open>db.users\<close>: the requester of a request that reaches a handler
  is a stored user. \<^verbatim>\<open>create_afap\<close> stores that user's id as \<open>user_id\<close>, and no
  handler removes or rewrites a user document. \<open>owners_exist\<close> says that every permit's
  owner has a user document; it holds of the demo data and of a registry without
  permits, and handling authenticated requests keeps it (\<open>owners_exist_run_requests\<close>
  below).
\<close>

fun authenticated :: "state \<Rightarrow> request \<Rightarrow> bool" where
  "authenticated s (Create_afap afap_data current_user uuid now utcnow) =
     (current_user \<in> set (db_users s))"
| "authenticated s (Update_afap_estado afap_ident estado' observaciones' current_user
       certificate_raises status_raises) =
     (current_user \<in> set (db_users s))"

definition owners_exist :: "state \<Rightarrow> bool" where
  "owners_exist s =
     list_all (\<lambda>a. find_one (db_users s) (\<lambda>x. id_user x = user_id a) \<noteq> None) (db_afap s)"

text \<open>
  Two \<^verbatim>\<open>create_afap\<close> requests served by one event loop, the second one
  scheduled while the first waits for the store: both handlers finish their first
  \<^verbatim>\<open>await\<close> (the read of the greatest number) before either reaches its second
  one (the insert). Nothing in the handler or in the store's calls it makes orders the
  two reads after the other request's insert.
\<close>

definition create_afap_interleaved ::
  "state \<Rightarrow> afap_base \<times> user \<times> string \<times> datetime \<times> datetime
     \<Rightarrow> afap_base \<times> user \<times> string \<times> datetime \<times> datetime \<Rightarrow> afap \<times> afap \<times> state" where
  "create_afap_interleaved s first_request second_request =
     (case first_request of (data_1, user_a, uuid_1, now_1, utcnow_1) \<Rightarrow>
      case second_request of (data_2, user_b, uuid_2, now_2, utcnow_2) \<Rightarrow>
        let next_number_1 = create_afap_next_number s;
            next_number_2 = create_afap_next_number s;
            first_result = create_afap_insert s data_1 user_a uuid_1 now_1 utcnow_1 next_number_1;
            second_result = create_afap_insert (snd first_result) data_2 user_b uuid_2 now_2
              utcnow_2 next_number_2
        in (fst first_result, fst second_result, snd second_result))"

text \<open>
  \<open>interleaved_example\<close>: two citizens file a permit at the same moment on the demo
  database, interleaved as above.
\<close>

definition interleaved_example :: "afap \<times> afap \<times> state" where
  "interleaved_example =
     create_afap_interleaved seed_state
       (afap_data_1, user_1, ''afap-4'', seed_now, seed_now)
       (afap_data_2, user_4, ''afap-5'', seed_now, seed_now)"

section \<open>Further databases\<close>

text \<open>
  \<open>fresh_state\<close>: the demo users before anyone has filed a permit.
  \<open>clausurado_state\<close>: the demo database after the administrator has set the
  \<open>estado\<close> of \<open>afap-2\<close> to \<open>clausurado\<close>.
  \<open>crowded_state\<close>: the demo users with 1001 permits of \<open>user-4\<close> and 1001
  inspections of \<open>user-2\<close>, each with an id of its own.
\<close>

definition fresh_state :: state where
  "fresh_state = seed_state\<lparr>db_afap := [], db_inspecciones := []\<rparr>"

definition clausurado_state :: state where
  "clausurado_state =
     snd (update_afap_estado seed_state ''afap-2'' ''clausurado'' None user_3 False False)"

definition many_afaps :: "nat \<Rightarrow> afap list" where
  "many_afaps n =
     map (\<lambda>k. afap_2\<lparr>id_afap := ''afap-'' @ replicate k (CHR ''i''),
                     numero_afap := 1001 + int k\<rparr>) [0..<n]"

definition many_inspecciones :: "nat \<Rightarrow> inspeccion list" where
  "many_inspecciones n =
     map (\<lambda>k. insp_1\<lparr>afap_id := ''afap-'', id_insp := ''insp-'' @ replicate k (CHR ''i'')\<rparr>)
       [0..<n]"

definition crowded_state :: state where
  "crowded_state =
     seed_state\<lparr>db_afap := many_afaps 1001, db_inspecciones := many_inspecciones 1001\<rparr>"

section \<open>Facts about the store and the demo data\<close>

lemmas seed_defs =
  seed_state_def afap_1_def afap_2_def afap_3_def user_1_def user_2_def user_3_def user_4_def
  seed_user_def insp_1_def afap_base.extend_def afap.fields_def

lemma id_afap_seed:
  "id_afap afap_1 = ''afap-1''" "id_afap afap_2 = ''afap-2''" "id_afap afap_3 = ''afap-3''"
  by (simp_all add: seed_defs)

lemma user_id_seed:
  "user_id afap_1 = ''user-1''" "user_id afap_2 = ''user-4''" "user_id afap_3 = ''user-1''"
  by (simp_all add: seed_defs)

lemma estado_seed:
  "estado afap_1 = ''aprobado''" "estado afap_2 = ''pendiente''" "estado afap_3 = ''inspeccion''"
  by (simp_all add: seed_defs)

lemma numero_afap_seed:
  "numero_afap afap_1 = 1001" "numero_afap afap_2 = 1002" "numero_afap afap_3 = 1003"
  by (simp_all add: seed_defs)

lemma user_seed:
  "id_user user_1 = ''user-1''" "id_user user_2 = ''user-2''"
  "id_user user_3 = ''user-3''" "id_user user_4 = ''user-4''"
  "role user_1 = Ciudadano" "role user_2 = Inspector"
  "role user_3 = Administrador" "role user_4 = Ciudadano"
  by (simp_all add: seed_defs)

lemma find_one_seed_afap:
  "find_one (db_afap seed_state) (\<lambda>a. id_afap a = ''afap-1'') = Some afap_1"
  "find_one (db_afap seed_state) (\<lambda>a. id_afap a = ''afap-2'') = Some afap_2"
  "find_one (db_afap seed_state) (\<lambda>a. id_afap a = ''afap-3'') = Some afap_3"
  by (simp_all add: find_one_def seed_state_def id_afap_seed)

lemma find_one_update_one_matched:
  "find_one coll q = Some d \<Longrightarrow> snd (update_one coll q f) = 1"
  by (induction coll) (auto simp: find_one_def split: prod.splits)

lemma find_one_after_update_one:
  "find_one coll q = Some d \<Longrightarrow> q (f d) \<Longrightarrow>
   find_one (fst (update_one coll q f)) q = Some (f d)"
  by (induction coll) (auto simp: find_one_def split: prod.splits)

lemma map_update_one:
  "(\<And>d. key (f d) = key d) \<Longrightarrow> map key (fst (update_one coll q f)) = map key coll"
  by (induction coll) (auto split: prod.splits)

lemma db_afap_try_send [simp]:
  "db_afap (try_send_certificate_email s r m n k a) = db_afap s"
  "db_afap (try_send_status_notification s r m n k old new obs) = db_afap s"
  by (simp_all add: try_send_certificate_email_def try_send_status_notification_def Let_def)

lemma update_afap_estado_authorised:
  assumes r: "role u = Inspector \<or> role u = Administrador"
    and f: "find_one (db_afap s) (\<lambda>a. id_afap a = i) = Some a"
  shows "fst (update_afap_estado s i e obs u cr sr) =
           Inr \<lparr>message = ''Estado actualizado correctamente'', old_estado = estado a,
                new_estado = e,
                email_sent = (find_one (db_users s) (\<lambda>x. id_user x = user_id a) \<noteq> None)\<rparr>"
    and "db_afap (snd (update_afap_estado s i e obs u cr sr)) =
           fst (update_one (db_afap s) (\<lambda>a. id_afap a = i)
             (\<lambda>a. if truthy obs then a\<lparr>estado := e, observaciones := obs\<rparr>
                  else a\<lparr>estado := e\<rparr>))"
proof -
  let ?f = "\<lambda>a. if truthy obs then a\<lparr>estado := e, observaciones := obs\<rparr> else a\<lparr>estado := e\<rparr>"
  have m: "snd (update_one (db_afap s) (\<lambda>a. id_afap a = i) ?f) = 1"
    using f by (rule find_one_update_one_matched)
  show "fst (update_afap_estado s i e obs u cr sr) =
           Inr \<lparr>message = ''Estado actualizado correctamente'', old_estado = estado a,
                new_estado = e,
                email_sent = (find_one (db_users s) (\<lambda>x. id_user x = user_id a) \<noteq> None)\<rparr>"
    using r f m by (auto simp: update_afap_estado_def Let_def split: option.splits)
  show "db_afap (snd (update_afap_estado s i e obs u cr sr)) =
           fst (update_one (db_afap s) (\<lambda>a. id_afap a = i) ?f)"
    using r f m by (auto simp: update_afap_estado_def Let_def split: option.splits)
qed

lemma update_afap_estado_stored:
  assumes r: "role u = Inspector \<or> role u = Administrador"
    and f: "find_one (db_afap s) (\<lambda>a. id_afap a = i) = Some a"
  shows "find_one (db_afap (snd (update_afap_estado s i e obs u cr sr))) (\<lambda>a. id_afap a = i) =
           Some (if truthy obs then a\<lparr>estado := e, observaciones := obs\<rparr> else a\<lparr>estado := e\<rparr>)"
proof -
  have q: "id_afap a = i"
    using f by (auto simp: find_one_def find_Some_iff)
  show ?thesis
    unfolding update_afap_estado_authorised(2) [OF r f]
    by (rule find_one_after_update_one [OF f]) (simp add: q)
qed

lemma update_afap_estado_effects:
  assumes r: "role u = Inspector \<or> role u = Administrador"
    and f: "find_one (db_afap s) (\<lambda>a. id_afap a = i) = Some a"
    and o: "find_one (db_users s) (\<lambda>x. id_user x = user_id a) = Some owner"
  shows "sent (snd (update_afap_estado s i e obs u cr sr)) =
           sent s @
           (if e = ''aprobado'' \<and> estado a \<noteq> ''aprobado''
            then [Certificate_email (email owner) (nombre owner @ '' '' @ apellido owner)
                    (numero_afap a) a]
            else []) @
           [Status_notification (email owner) (nombre owner @ '' '' @ apellido owner)
              (numero_afap a) (estado a) e obs]"
    and "logged (snd (update_afap_estado s i e obs u cr sr)) =
           logged s @
           (if e = ''aprobado'' \<and> estado a \<noteq> ''aprobado''
            then [if cr then Error_sending_certificate_email
                  else Info_certificate_email_sent (numero_afap a)]
            else []) @
           (if sr then [Error_sending_status_notification] else [])"
proof -
  let ?f = "\<lambda>a. if truthy obs then a\<lparr>estado := e, observaciones := obs\<rparr> else a\<lparr>estado := e\<rparr>"
  have m: "snd (update_one (db_afap s) (\<lambda>a. id_afap a = i) ?f) = 1"
    using f by (rule find_one_update_one_matched)
  show "sent (snd (update_afap_estado s i e obs u cr sr)) =
           sent s @
           (if e = ''aprobado'' \<and> estado a \<noteq> ''aprobado''
            then [Certificate_email (email owner) (nombre owner @ '' '' @ apellido owner)
                    (numero_afap a) a]
            else []) @
           [Status_notification (email owner) (nombre owner @ '' '' @ apellido owner)
              (numero_afap a) (estado a) e obs]"
    using r f o m
    by (auto simp: update_afap_estado_def Let_def try_send_certificate_email_def
        try_send_status_notification_def)
  show "logged (snd (update_afap_estado s i e obs u cr sr)) =
           logged s @
           (if e = ''aprobado'' \<and> estado a \<noteq> ''aprobado''
            then [if cr then Error_sending_certificate_email
                  else Info_certificate_email_sent (numero_afap a)]
            else []) @
           (if sr then [Error_sending_status_notification] else [])"
    using r f o m
    by (auto simp: update_afap_estado_def Let_def try_send_certificate_email_def
        try_send_status_notification_def)
qed

lemma find_one_sort_desc_None [simp]:
  "find_one_sort_desc key ds = None \<longleftrightarrow> ds = []"
  by (induction ds) (auto split: option.splits)

lemma find_one_sort_desc_greatest:
  "find_one_sort_desc key ds = Some m \<Longrightarrow> m \<in> set ds \<and> (\<forall>d \<in> set ds. key d \<le> key m)"
proof (induction ds arbitrary: m)
  case Nil
  then show ?case by simp
next
  case (Cons d ds)
  show ?case
  proof (cases "find_one_sort_desc key ds")
    case None
    then show ?thesis using Cons.prems by simp
  next
    case (Some m')
    with Cons.IH [of m'] have ih: "m' \<in> set ds" "\<forall>x \<in> set ds. key x \<le> key m'"
      by simp_all
    show ?thesis
    proof (cases "key m' \<le> key d")
      case True
      with Some Cons.prems have "m = d" by simp
      with ih True show ?thesis by auto
    next
      case False
      with Some Cons.prems have "m = m'" by simp
      with ih False show ?thesis by auto
    qed
  qed
qed

lemma create_afap_next_number_empty:
  "db_afap s = [] \<Longrightarrow> create_afap_next_number s = 1001"
  by (simp add: create_afap_next_number_def)

lemma create_afap_next_number_Max:
  assumes "db_afap s \<noteq> []"
  shows "create_afap_next_number s = Max (numero_afap ` set (db_afap s)) + 1"
proof -
  from assms obtain m where m: "find_one_sort_desc numero_afap (db_afap s) = Some m"
    by (cases "find_one_sort_desc numero_afap (db_afap s)") auto
  from find_one_sort_desc_greatest [OF m]
  have "Max (numero_afap ` set (db_afap s)) = numero_afap m"
    by (intro Max_eqI) auto
  with m show ?thesis
    by (simp add: create_afap_next_number_def)
qed

lemma create_afap_next_number_greater:
  assumes "p \<in> set (db_afap s)"
  shows "numero_afap p < create_afap_next_number s"
proof -
  from assms have ne: "db_afap s \<noteq> []" by auto
  then obtain m where m: "find_one_sort_desc numero_afap (db_afap s) = Some m"
    by (cases "find_one_sort_desc numero_afap (db_afap s)") auto
  from find_one_sort_desc_greatest [OF m] assms have "numero_afap p \<le> numero_afap m"
    by blast
  with m show ?thesis
    by (simp add: create_afap_next_number_def)
qed

lemma create_afap_fields:
  "id_afap (fst (create_afap s d u i n t)) = i"
  "numero_afap (fst (create_afap s d u i n t)) = create_afap_next_number s"
  "user_id (fst (create_afap s d u i n t)) = id_user u"
  "estado (fst (create_afap s d u i n t)) = ''pendiente''"
  "fecha_solicitud (fst (create_afap s d u i n t)) = t"
  "fecha_vencimiento (fst (create_afap s d u i n t)) = Some (n + timedelta_days 30)"
  "observaciones (fst (create_afap s d u i n t)) = None"
  "inspector_asignado (fst (create_afap s d u i n t)) = None"
  "afap_base.truncate (fst (create_afap s d u i n t)) = d"
  "db_afap (snd (create_afap s d u i n t)) = db_afap s @ [fst (create_afap s d u i n t)]"
  by (simp_all add: create_afap_def create_afap_insert_def Let_def insert_one_def
      afap_base.extend_def afap.fields_def afap_base.truncate_def)

lemma update_afap_estado_numbers:
  "map numero_afap (db_afap (snd (update_afap_estado s i e obs u cr sr))) =
   map numero_afap (db_afap s)"
proof -
  have "map numero_afap (fst (update_one (db_afap s) q
      (\<lambda>a. if truthy obs then a\<lparr>estado := e, observaciones := obs\<rparr> else a\<lparr>estado := e\<rparr>))) =
      map numero_afap (db_afap s)" for q
    by (rule map_update_one) simp
  then show ?thesis
    by (auto simp: update_afap_estado_def Let_def split: option.splits)
qed

lemma handle_request_sorted:
  assumes "sorted_wrt (<) (map numero_afap (db_afap s))"
  shows "sorted_wrt (<) (map numero_afap (db_afap (handle_request s r)))"
proof (cases r)
  case (Create_afap d u i n t)
  then show ?thesis
    using assms
    by (auto simp: create_afap_fields sorted_wrt_append create_afap_next_number_greater)
next
  case (Update_afap_estado i e obs u cr sr)
  then show ?thesis
    using assms by (simp add: update_afap_estado_numbers)
qed

lemma run_requests_sorted:
  "sorted_wrt (<) (map numero_afap (db_afap s)) \<Longrightarrow>
   sorted_wrt (<) (map numero_afap (db_afap (run_requests s requests)))"
  unfolding run_requests_def
  by (induction requests arbitrary: s) (simp_all add: handle_request_sorted)

lemma seed_sorted: "sorted_wrt (<) (map numero_afap (db_afap seed_state))"
  by (simp add: seed_state_def numero_afap_seed)

lemma next_seed: "create_afap_next_number seed_state = 1004"
  by (simp add: create_afap_next_number_def seed_state_def numero_afap_seed)

lemma length_many [simp]:
  "length (many_afaps n) = n" "length (many_inspecciones n) = n"
  by (simp_all add: many_afaps_def many_inspecciones_def)

lemma many_afaps_owned:
  "filter (\<lambda>a. user_id a = ''user-4'') (many_afaps n) = many_afaps n"
  by (simp add: many_afaps_def filter_map o_def user_id_seed)

lemma many_afaps_distinct: "distinct (map id_afap (many_afaps n))"
proof -
  have "inj (\<lambda>k. ''afap-'' @ replicate k (CHR ''i''))"
    by (rule injI) (drule arg_cong [where f = length], simp)
  then have "inj_on (\<lambda>k. ''afap-'' @ replicate k (CHR ''i'')) (set [0..<n])"
    by (rule inj_on_subset) simp
  then show ?thesis
    by (simp add: many_afaps_def distinct_map o_def)
qed

lemma many_inspecciones_distinct: "distinct (map id_insp (many_inspecciones n))"
proof -
  have "inj (\<lambda>k. ''insp-'' @ replicate k (CHR ''i''))"
    by (rule injI) (drule arg_cong [where f = length], simp)
  then have "inj_on (\<lambda>k. ''insp-'' @ replicate k (CHR ''i'')) (set [0..<n])"
    by (rule inj_on_subset) simp
  then show ?thesis
    by (simp add: many_inspecciones_def distinct_map o_def)
qed

lemma crowded_db:
  "db_afap crowded_state = many_afaps 1001"
  "db_inspecciones crowded_state = many_inspecciones 1001"
  by (simp_all add: crowded_state_def)

lemma get_afaps_ciudadano:
  "role u = Ciudadano \<Longrightarrow>
   get_afaps s u =
     response_model_List_AFAP (take 1000 (filter (\<lambda>a. user_id a = id_user u) (db_afap s)))"
  by (simp add: get_afaps_def find_docs_def to_list_def)

lemma get_afaps_staff:
  "role u = Inspector \<or> role u = Administrador \<Longrightarrow>
   get_afaps s u = response_model_List_AFAP (take 1000 (db_afap s))"
  by (auto simp add: get_afaps_def find_docs_def to_list_def)

lemma many_afaps_valid:
  "list_all (\<lambda>a. estado a \<in> set AFAP_estado_literal) (many_afaps n)"
  by (simp add: many_afaps_def list_all_iff estado_seed AFAP_estado_literal_def)

lemma list_all_take: "list_all P xs \<Longrightarrow> list_all P (take n xs)"
  by (auto simp: list_all_iff dest: in_set_takeD)

lemma clausurado_db:
  "db_afap clausurado_state = [afap_1, afap_2\<lparr>estado := ''clausurado''\<rparr>, afap_3]"
proof -
  have r: "role user_3 = Inspector \<or> role user_3 = Administrador"
    by (simp add: user_seed)
  have d: "db_afap seed_state = [afap_1, afap_2, afap_3]"
    by (simp add: seed_state_def)
  show ?thesis
    unfolding clausurado_state_def update_afap_estado_authorised(2) [OF r find_one_seed_afap(2)] d
    by (simp add: id_afap_seed truthy_def)
qed

lemma db_users_handlers [simp]:
  "db_users (snd (create_afap s d u i n t)) = db_users s"
  "db_users (snd (update_afap_estado s j e obs u cr sr)) = db_users s"
  by (auto simp: create_afap_def create_afap_insert_def update_afap_estado_def Let_def
      try_send_certificate_email_def try_send_status_notification_def split: option.splits)

lemma db_users_handle_request [simp]: "db_users (handle_request s r) = db_users s"
  by (cases r) simp_all

lemma authenticated_handle_request [simp]:
  "authenticated (handle_request s r) r' = authenticated s r'"
  by (cases r') simp_all

lemma update_afap_estado_user_ids:
  "map user_id (db_afap (snd (update_afap_estado s i e obs u cr sr))) =
   map user_id (db_afap s)"
proof -
  have "map user_id (fst (update_one (db_afap s) q
      (\<lambda>a. if truthy obs then a\<lparr>estado := e, observaciones := obs\<rparr> else a\<lparr>estado := e\<rparr>))) =
      map user_id (db_afap s)" for q
    by (rule map_update_one) simp
  then show ?thesis
    by (auto simp: update_afap_estado_def Let_def split: option.splits)
qed

lemma owners_exist_user_ids:
  "owners_exist s =
   list_all (\<lambda>v. find_one (db_users s) (\<lambda>x. id_user x = v) \<noteq> None) (map user_id (db_afap s))"
  by (simp add: owners_exist_def list_all_iff)

lemma owners_exist_handle_request:
  assumes "owners_exist s" and "authenticated s r"
  shows "owners_exist (handle_request s r)"
proof (cases r)
  case (Create_afap d u i n t)
  with assms(2) have "u \<in> set (db_users s)"
    by simp
  then have "find_one (db_users s) (\<lambda>x. id_user x = id_user u) \<noteq> None"
    by (auto simp: find_one_def find_None_iff)
  with assms(1) Create_afap show ?thesis
    by (simp add: owners_exist_user_ids create_afap_fields)
next
  case (Update_afap_estado i e obs u cr sr)
  with assms(1) show ?thesis
    by (simp add: owners_exist_user_ids update_afap_estado_user_ids)
qed

lemma owners_exist_run_requests:
  "owners_exist s \<Longrightarrow> list_all (authenticated s) requests \<Longrightarrow>
   owners_exist (run_requests s requests)"
  unfolding run_requests_def
proof (induction requests arbitrary: s)
  case Nil
  then show ?case by simp
next
  case (Cons r requests)
  from Cons.prems have h1: "owners_exist (handle_request s r)"
    by (simp add: owners_exist_handle_request)
  from Cons.prems have h2: "list_all (authenticated (handle_request s r)) requests"
    by (simp add: list_all_iff)
  from Cons.IH [OF h1 h2] show ?case
    by simp
qed

lemma owners_exist_seed: "owners_exist seed_state" "owners_exist fresh_state"
  by (simp_all add: owners_exist_def fresh_state_def seed_state_def find_one_def
      user_seed user_id_seed)

lemma get_inspecciones_inspector:
  "role u = Inspector \<Longrightarrow>
   get_inspecciones s u =
     take 1000 (filter (\<lambda>i. inspector_id i = id_user u) (db_inspecciones s))"
  by (simp add: get_inspecciones_def find_docs_def to_list_def)

lemma get_inspecciones_administrador:
  "role u = Administrador \<Longrightarrow> get_inspecciones s u = take 1000 (db_inspecciones s)"
  by (simp add: get_inspecciones_def find_docs_def to_list_def)

lemma get_inspecciones_ciudadano:
  "role u = Ciudadano \<Longrightarrow>
   get_inspecciones s u =
     take 1000 (filter
       (\<lambda>i. afap_id i \<in> id_afap `
          set (take 1000 (filter (\<lambda>a. user_id a = id_user u) (db_afap s))))
       (db_inspecciones s))"
  by (simp add: get_inspecciones_def find_docs_def to_list_def Let_def)

lemma owned_ids:
  "(x \<in> id_afap ` set (filter (\<lambda>a. user_id a = v) afaps)) =
   (\<exists>a \<in> set afaps. user_id a = v \<and> id_afap a = x)"
  by auto

lemma take_many_afaps: "m \<le> n \<Longrightarrow> take m (many_afaps n) = many_afaps m"
  by (simp add: many_afaps_def take_map)

lemma first_of_many_afaps: "0 < n \<Longrightarrow> ''afap-'' \<in> id_afap ` set (many_afaps n)"
  by (auto simp: many_afaps_def image_iff intro!: bexI [of _ 0])

lemma many_inspecciones_fields:
  "filter (\<lambda>i. inspector_id i = ''user-2'') (many_inspecciones n) = many_inspecciones n"
  "filter (\<lambda>i. afap_id i = ''afap-'') (many_inspecciones n) = many_inspecciones n"
  by (simp_all add: many_inspecciones_def filter_map o_def insp_1_def)

lemma many_inspecciones_afap_id:
  "i \<in> set (many_inspecciones n) \<Longrightarrow> afap_id i = ''afap-''"
  by (auto simp: many_inspecciones_def)

lemma crowded_owned_ids:
  "''afap-'' \<in> id_afap ` set (take 1000 (filter (\<lambda>a. user_id a = ''user-4'') (many_afaps 1001)))"
proof -
  have "take 1000 (many_afaps 1001) = many_afaps 1000"
    by (rule take_many_afaps) simp
  then show ?thesis
    by (simp only: many_afaps_owned) (rule first_of_many_afaps, simp)
qed

lemma first_of_many_afaps_owned:
  "0 < n \<Longrightarrow> \<exists>a \<in> set (many_afaps n). user_id a = ''user-4'' \<and> id_afap a = ''afap-''"
  by (auto simp: many_afaps_def user_id_seed intro!: bexI [of _ 0])

lemma many_inspecciones_of_owner:
  assumes "0 < n"
  shows "filter
     (\<lambda>i. \<exists>a \<in> set (many_afaps n). user_id a = ''user-4'' \<and> id_afap a = afap_id i)
     (many_inspecciones m) = many_inspecciones m"
  unfolding filter_id_conv
proof
  fix i
  assume "i \<in> set (many_inspecciones m)"
  then have "afap_id i = ''afap-''"
    by (rule many_inspecciones_afap_id)
  with first_of_many_afaps_owned [OF assms]
  show "\<exists>a \<in> set (many_afaps n). user_id a = ''user-4'' \<and> id_afap a = afap_id i"
    by simp
qed

lemma many_inspecciones_of_first_thousand:
  "filter
     (\<lambda>i. afap_id i \<in> id_afap `
        set (take 1000 (filter (\<lambda>a. user_id a = ''user-4'') (many_afaps 1001))))
     (many_inspecciones m) = many_inspecciones m"
  unfolding filter_id_conv
proof
  fix i
  assume "i \<in> set (many_inspecciones m)"
  then have "afap_id i = ''afap-''"
    by (rule many_inspecciones_afap_id)
  with crowded_owned_ids
  show "afap_id i \<in> id_afap `
        set (take 1000 (filter (\<lambda>a. user_id a = ''user-4'') (many_afaps 1001)))"
    by simp
qed

section \<open>Certificate download\<close>

text \<open>
  C3. A permit that exists and whose \<open>estado\<close> is not \<open>aprobado\<close>: the download fails
  with \<open>InvalidState\<close> for every requester, whatever the role, and nothing is returned,
  logged or stored.
\<close>

theorem download_certificado_requires_aprobado:
  "find_one (db_afap s) (\<lambda>a. id_afap a = afap_ident) = Some a \<Longrightarrow>
   estado a \<noteq> ''aprobado'' \<Longrightarrow>
   download_certificado s afap_ident current_user uuid utcnow log_raises render
     = (Inl InvalidState, s)"
  by (simp add: download_certificado_def)

theorem download_certificado_requires_aprobado_witness:
  "find_one (db_afap seed_state) (\<lambda>a. id_afap a = ''afap-2'') = Some afap_2 \<and>
   estado afap_2 \<noteq> ''aprobado'' \<and>
   download_certificado seed_state ''afap-2'' user_3 ''log-1'' seed_now False (\<lambda>a. Some ''%PDF'')
     = (Inl InvalidState, seed_state)"
proof -
  have f: "find_one (db_afap seed_state) (\<lambda>a. id_afap a = ''afap-2'') = Some afap_2"
    by (simp add: find_one_def seed_state_def id_afap_seed)
  have e: "estado afap_2 \<noteq> ''aprobado''"
    by (simp add: seed_defs)
  show ?thesis
    using f e download_certificado_requires_aprobado [OF f e] by simp
qed

text \<open>
  C8, as the specification states it, fails: a citizen who asks for the certificate of
  someone else's permit that is not approved gets \<open>InvalidState\<close>, not \<open>Forbidden\<close>,
  while \<open>get_afap\<close> answers \<open>Forbidden\<close> for the same permit and requester.
\<close>

theorem download_certificado_forbidden_counterexample:
  "find_one (db_afap seed_state) (\<lambda>a. id_afap a = ''afap-2'') = Some afap_2 \<and>
   role user_1 = Ciudadano \<and> id_user user_1 \<noteq> user_id afap_2 \<and>
   get_afap seed_state ''afap-2'' user_1 = Inl Forbidden \<and>
   fst (download_certificado seed_state ''afap-2'' user_1 ''log-1'' seed_now False
          (\<lambda>a. Some ''%PDF'')) = Inl InvalidState \<and>
   fst (download_certificado seed_state ''afap-2'' user_1 ''log-1'' seed_now False
          (\<lambda>a. Some ''%PDF'')) \<noteq> Inl Forbidden"
  by (simp add: download_certificado_def get_afap_def find_one_seed_afap user_seed
      user_id_seed estado_seed)

text \<open>
  C8, amended. For a permit that exists and is approved, the download fails with
  \<open>Forbidden\<close>, leaving the state as it was, when the requester is a citizen whose id
  differs from the permit's \<open>user_id\<close>; on such a permit the download answers
  \<open>Forbidden\<close> in exactly the cases in which \<open>get_afap\<close> does.
\<close>

theorem download_certificado_ownership_rule:
  "find_one (db_afap s) (\<lambda>a. id_afap a = afap_ident) = Some a \<Longrightarrow>
   estado a = ''aprobado'' \<Longrightarrow>
   (role current_user = Ciudadano \<and> user_id a \<noteq> id_user current_user \<longrightarrow>
      download_certificado s afap_ident current_user uuid utcnow log_raises render
        = (Inl Forbidden, s)) \<and>
   (fst (download_certificado s afap_ident current_user uuid utcnow log_raises render)
        = Inl Forbidden)
     = (role current_user = Ciudadano \<and> user_id a \<noteq> id_user current_user) \<and>
   (get_afap s afap_ident current_user = Inl Forbidden)
     = (role current_user = Ciudadano \<and> user_id a \<noteq> id_user current_user)"
  by (auto simp: download_certificado_def get_afap_def Let_def split: option.splits)

theorem download_certificado_ownership_rule_witness:
  "find_one (db_afap seed_state) (\<lambda>a. id_afap a = ''afap-1'') = Some afap_1 \<and>
   estado afap_1 = ''aprobado'' \<and>
   role user_4 = Ciudadano \<and> user_id afap_1 \<noteq> id_user user_4 \<and>
   download_certificado seed_state ''afap-1'' user_4 ''log-1'' seed_now False (\<lambda>a. Some ''%PDF'')
     = (Inl Forbidden, seed_state) \<and>
   get_afap seed_state ''afap-1'' user_4 = Inl Forbidden"
  using download_certificado_ownership_rule
    [OF find_one_seed_afap(1) estado_seed(1), of user_4 "''log-1''" seed_now False
      "\<lambda>a. Some ''%PDF''"]
  by (simp add: find_one_seed_afap estado_seed user_seed user_id_seed)

section \<open>Public verification\<close>

lemma verificar_seed:
  "verificar_certificado_publico seed_state ''afap-1'' =
     Inr [(''id'', JStr ''afap-1''),
          (''numero_afap'', JInt 1001),
          (''estado'', JStr ''aprobado''),
          (''titular_nombre'', JStr ''Juan Perez''),
          (''titular_cuit'', JStr ''20123456789''),
          (''domicilio_calle'', JStr ''Av. Evergreen Terrace''),
          (''domicilio_altura'', JStr ''742''),
          (''domicilio_local'', JStr ''PB''),
          (''domicilio_localidad'', JStr ''Buenos Aires''),
          (''rubro_tipo'', JStr ''Comercio Minorista''),
          (''rubro_descripcion'', JStr ''Panaderia artesanal con venta de productos de pasteleria''),
          (''metros_cuadrados'', JFloat 85.5),
          (''fecha_solicitud'', JDate 1761782400000000),
          (''fecha_vencimiento'', JDate 1764374400000000),
          (''observaciones'', JStr ''Aprobado - Cumple con todos los requisitos'')]"
  by (simp add: verificar_certificado_publico_def find_one_seed_afap json_opt_str_def)
     (simp add: seed_defs afap_data_1_def seed_now_def timedelta_days_def)

text \<open>
  C2. Whenever the public verification answers, the response has exactly the fifteen keys
  below; \<open>solicitante_email\<close>, \<open>solicitante_telefono\<close> and \<open>solicitante_cuit_cuil\<close>
  are not among them, and no key starts with \<open>solicitante_\<close>. The handler has no
  requester among its arguments, so the response cannot depend on who asks.
\<close>

theorem verificar_certificado_publico_projection:
  "verificar_certificado_publico s afap_ident = Inr response \<Longrightarrow>
   map fst response =
     [''id'', ''numero_afap'', ''estado'', ''titular_nombre'', ''titular_cuit'',
      ''domicilio_calle'', ''domicilio_altura'', ''domicilio_local'', ''domicilio_localidad'',
      ''rubro_tipo'', ''rubro_descripcion'', ''metros_cuadrados'', ''fecha_solicitud'',
      ''fecha_vencimiento'', ''observaciones''] \<and>
   ''solicitante_email'' \<notin> fst ` set response \<and>
   ''solicitante_telefono'' \<notin> fst ` set response \<and>
   ''solicitante_cuit_cuil'' \<notin> fst ` set response \<and>
   (\<forall>k \<in> fst ` set response. take 12 k \<noteq> ''solicitante_'')"
  by (auto simp: verificar_certificado_publico_def split: option.splits)

theorem verificar_certificado_publico_projection_witness:
  "verificar_certificado_publico seed_state ''afap-1'' =
     Inr [(''id'', JStr ''afap-1''),
          (''numero_afap'', JInt 1001),
          (''estado'', JStr ''aprobado''),
          (''titular_nombre'', JStr ''Juan Perez''),
          (''titular_cuit'', JStr ''20123456789''),
          (''domicilio_calle'', JStr ''Av. Evergreen Terrace''),
          (''domicilio_altura'', JStr ''742''),
          (''domicilio_local'', JStr ''PB''),
          (''domicilio_localidad'', JStr ''Buenos Aires''),
          (''rubro_tipo'', JStr ''Comercio Minorista''),
          (''rubro_descripcion'', JStr ''Panaderia artesanal con venta de productos de pasteleria''),
          (''metros_cuadrados'', JFloat 85.5),
          (''fecha_solicitud'', JDate 1761782400000000),
          (''fecha_vencimiento'', JDate 1764374400000000),
          (''observaciones'', JStr ''Aprobado - Cumple con todos los requisitos'')] \<and>
   solicitante_email afap_1 = ''ciudadano@buenosaires.gov'' \<and>
   ''solicitante_email'' \<notin> fst ` set (projr (verificar_certificado_publico seed_state ''afap-1''))"
  using verificar_certificado_publico_projection [OF verificar_seed] verificar_seed
  by (simp add: seed_defs afap_data_1_def)

section \<open>Changing the state of a permit\<close>

text \<open>
  C4. A requester who is neither inspector nor administrator gets \<open>Forbidden\<close> and the
  state stays as it was. For an inspector or an administrator and a permit that exists,
  the call succeeds whatever the permit's current \<open>estado\<close> is, reports the old and the
  new one, and the stored permit then carries the requested \<open>estado\<close> (and the given
  observations, when they are not empty); nothing else of the permit changes.
\<close>

theorem update_afap_estado_role_gate:
  "(role u \<noteq> Inspector \<and> role u \<noteq> Administrador \<longrightarrow>
      update_afap_estado s i e obs u cr sr = (Inl Forbidden, s)) \<and>
   ((role u = Inspector \<or> role u = Administrador) \<and>
    find_one (db_afap s) (\<lambda>a. id_afap a = i) = Some a \<longrightarrow>
      fst (update_afap_estado s i e obs u cr sr) =
        Inr \<lparr>message = ''Estado actualizado correctamente'', old_estado = estado a,
             new_estado = e,
             email_sent = (find_one (db_users s) (\<lambda>x. id_user x = user_id a) \<noteq> None)\<rparr> \<and>
      find_one (db_afap (snd (update_afap_estado s i e obs u cr sr))) (\<lambda>a. id_afap a = i) =
        Some (a\<lparr>estado := e,
                 observaciones := (if truthy obs then obs else observaciones a)\<rparr>))"
proof (intro conjI impI)
  assume "role u \<noteq> Inspector \<and> role u \<noteq> Administrador"
  then show "update_afap_estado s i e obs u cr sr = (Inl Forbidden, s)"
    by (simp add: update_afap_estado_def)
next
  assume h: "(role u = Inspector \<or> role u = Administrador) \<and>
    find_one (db_afap s) (\<lambda>a. id_afap a = i) = Some a"
  then show "fst (update_afap_estado s i e obs u cr sr) =
        Inr \<lparr>message = ''Estado actualizado correctamente'', old_estado = estado a,
             new_estado = e,
             email_sent = (find_one (db_users s) (\<lambda>x. id_user x = user_id a) \<noteq> None)\<rparr>"
    by (simp add: update_afap_estado_authorised(1))
next
  assume h: "(role u = Inspector \<or> role u = Administrador) \<and>
    find_one (db_afap s) (\<lambda>a. id_afap a = i) = Some a"
  then show "find_one (db_afap (snd (update_afap_estado s i e obs u cr sr))) (\<lambda>a. id_afap a = i) =
        Some (a\<lparr>estado := e,
                 observaciones := (if truthy obs then obs else observaciones a)\<rparr>)"
    by (simp add: update_afap_estado_stored)
qed

theorem update_afap_estado_role_gate_witness:
  "role user_1 \<noteq> Inspector \<and> role user_1 \<noteq> Administrador \<and>
   update_afap_estado seed_state ''afap-3'' ''aprobado'' None user_1 False False
     = (Inl Forbidden, seed_state) \<and>
   role user_2 = Inspector \<and>
   find_one (db_afap seed_state) (\<lambda>a. id_afap a = ''afap-3'') = Some afap_3 \<and>
   estado afap_3 = ''inspeccion'' \<and>
   fst (update_afap_estado seed_state ''afap-3'' ''pendiente'' None user_2 False False) =
     Inr \<lparr>message = ''Estado actualizado correctamente'', old_estado = ''inspeccion'',
          new_estado = ''pendiente'', email_sent = True\<rparr> \<and>
   find_one (db_afap (snd (update_afap_estado seed_state ''afap-3'' ''pendiente'' None user_2
       False False))) (\<lambda>a. id_afap a = ''afap-3'') = Some (afap_3\<lparr>estado := ''pendiente''\<rparr>)"
proof -
  have r1: "role user_1 \<noteq> Inspector \<and> role user_1 \<noteq> Administrador"
    by (simp add: user_seed)
  have r2: "(role user_2 = Inspector \<or> role user_2 = Administrador) \<and>
      find_one (db_afap seed_state) (\<lambda>a. id_afap a = ''afap-3'') = Some afap_3"
    by (simp add: user_seed find_one_seed_afap)
  have o: "find_one (db_users seed_state) (\<lambda>x. id_user x = user_id afap_3) = Some user_1"
    by (simp add: find_one_def seed_state_def user_seed user_id_seed)
  show ?thesis
    using r1 r2
      update_afap_estado_role_gate
        [of user_1 seed_state "''afap-3''" "''aprobado''" None False False afap_3]
      update_afap_estado_role_gate
        [of user_2 seed_state "''afap-3''" "''pendiente''" None False False afap_3]
    by (simp add: o user_seed estado_seed truthy_def)
qed

text \<open>
  C10. The new \<open>estado\<close> is any string at all: for an inspector or an administrator and
  a permit that exists the call succeeds and the stored permit carries exactly that
  string, also when it is none of the four values of \<open>AFAP_estado_literal\<close>.
\<close>

theorem update_afap_estado_unvalidated:
  "role u = Inspector \<or> role u = Administrador \<Longrightarrow>
   find_one (db_afap s) (\<lambda>a. id_afap a = i) = Some a \<Longrightarrow>
   fst (update_afap_estado s i e obs u cr sr) =
     Inr \<lparr>message = ''Estado actualizado correctamente'', old_estado = estado a,
          new_estado = e,
          email_sent = (find_one (db_users s) (\<lambda>x. id_user x = user_id a) \<noteq> None)\<rparr> \<and>
   map_option estado
     (find_one (db_afap (snd (update_afap_estado s i e obs u cr sr))) (\<lambda>a. id_afap a = i))
     = Some e"
  by (simp add: update_afap_estado_authorised(1) update_afap_estado_stored)

theorem update_afap_estado_unvalidated_witness:
  "role user_3 = Administrador \<and>
   find_one (db_afap seed_state) (\<lambda>a. id_afap a = ''afap-2'') = Some afap_2 \<and>
   ''clausurado'' \<notin> set AFAP_estado_literal \<and>
   fst (update_afap_estado seed_state ''afap-2'' ''clausurado'' None user_3 False False) =
     Inr \<lparr>message = ''Estado actualizado correctamente'', old_estado = ''pendiente'',
          new_estado = ''clausurado'', email_sent = True\<rparr> \<and>
   map_option estado
     (find_one (db_afap (snd (update_afap_estado seed_state ''afap-2'' ''clausurado'' None user_3
        False False))) (\<lambda>a. id_afap a = ''afap-2'')) = Some ''clausurado''"
proof -
  have r: "role user_3 = Inspector \<or> role user_3 = Administrador"
    by (simp add: user_seed)
  have o: "find_one (db_users seed_state) (\<lambda>x. id_user x = user_id afap_2) = Some user_4"
    by (simp add: find_one_def seed_state_def user_seed user_id_seed)
  show ?thesis
    using update_afap_estado_unvalidated [OF r find_one_seed_afap(2), of "''clausurado''" None False False]
      update_afap_estado_authorised(1) [OF r find_one_seed_afap(2), of "''clausurado''" None False False]
    by (simp add: o user_seed find_one_seed_afap estado_seed AFAP_estado_literal_def)
qed

section \<open>Notifications of a state change\<close>

text \<open>
  C6. In a state in which every permit's owner has a user document, which is every
  state the handlers reach (\<open>owners_exist_run_requests\<close>, \<open>owners_exist_seed\<close>), a
  call by an inspector or an administrator on a permit that exists succeeds and makes
  exactly one status-changed call, addressed to the owner, and before it exactly one
  certificate call when the new \<open>estado\<close> is \<open>aprobado\<close> and the old one was not, and
  no other call. A call that raises leaves an error record in the log; whether the calls
  raise or not, the response and the stored permit are the same.
\<close>

theorem update_afap_estado_notifications:
  "owners_exist s \<Longrightarrow>
   role u = Inspector \<or> role u = Administrador \<Longrightarrow>
   find_one (db_afap s) (\<lambda>a. id_afap a = i) = Some a \<Longrightarrow>
   (\<exists>owner.
      find_one (db_users s) (\<lambda>x. id_user x = user_id a) = Some owner \<and>
      id_user owner = user_id a \<and>
      sent (snd (update_afap_estado s i e obs u cr sr)) =
        sent s @
        (if e = ''aprobado'' \<and> estado a \<noteq> ''aprobado''
         then [Certificate_email (email owner) (nombre owner @ '' '' @ apellido owner)
                 (numero_afap a) a]
         else []) @
        [Status_notification (email owner) (nombre owner @ '' '' @ apellido owner)
           (numero_afap a) (estado a) e obs] \<and>
      logged (snd (update_afap_estado s i e obs u cr sr)) =
        logged s @
        (if e = ''aprobado'' \<and> estado a \<noteq> ''aprobado''
         then [if cr then Error_sending_certificate_email
               else Info_certificate_email_sent (numero_afap a)]
         else []) @
        (if sr then [Error_sending_status_notification] else []) \<and>
      fst (update_afap_estado s i e obs u cr sr) =
        Inr \<lparr>message = ''Estado actualizado correctamente'', old_estado = estado a,
             new_estado = e, email_sent = True\<rparr> \<and>
      find_one (db_afap (snd (update_afap_estado s i e obs u cr sr))) (\<lambda>a. id_afap a = i) =
        Some (a\<lparr>estado := e,
                 observaciones := (if truthy obs then obs else observaciones a)\<rparr>))"
proof -
  assume oe: "owners_exist s"
    and r: "role u = Inspector \<or> role u = Administrador"
    and f: "find_one (db_afap s) (\<lambda>a. id_afap a = i) = Some a"
  from f have "a \<in> set (db_afap s)"
    by (auto simp: find_one_def find_Some_iff)
  with oe obtain owner
    where o: "find_one (db_users s) (\<lambda>x. id_user x = user_id a) = Some owner"
    by (auto simp: owners_exist_def list_all_iff)
  then have io: "id_user owner = user_id a"
    by (auto simp: find_one_def find_Some_iff)
  note sent_eq = update_afap_estado_effects(1) [OF r f o, of e obs cr sr]
  note logged_eq = update_afap_estado_effects(2) [OF r f o, of e obs cr sr]
  have result: "fst (update_afap_estado s i e obs u cr sr) =
      Inr \<lparr>message = ''Estado actualizado correctamente'', old_estado = estado a,
           new_estado = e, email_sent = True\<rparr>"
    by (simp add: update_afap_estado_authorised(1) [OF r f] o)
  have stored: "find_one (db_afap (snd (update_afap_estado s i e obs u cr sr)))
      (\<lambda>a. id_afap a = i) =
      Some (a\<lparr>estado := e, observaciones := (if truthy obs then obs else observaciones a)\<rparr>)"
    by (simp add: update_afap_estado_stored [OF r f])
  show ?thesis
    using o io sent_eq logged_eq result stored by (intro exI [of _ owner] conjI)
qed

theorem update_afap_estado_notifications_witness:
  "owners_exist seed_state \<and>
   role user_2 = Inspector \<and>
   find_one (db_afap seed_state) (\<lambda>a. id_afap a = ''afap-2'') = Some afap_2 \<and>
   find_one (db_users seed_state) (\<lambda>x. id_user x = user_id afap_2) = Some user_4 \<and>
   sent (snd (update_afap_estado seed_state ''afap-2'' ''aprobado'' None user_2 True True)) =
     [Certificate_email ''comerciante@email.com'' ''Ana Martinez'' 1002 afap_2,
      Status_notification ''comerciante@email.com'' ''Ana Martinez'' 1002 ''pendiente''
        ''aprobado'' None] \<and>
   logged (snd (update_afap_estado seed_state ''afap-2'' ''aprobado'' None user_2 True True)) =
     [Error_sending_certificate_email, Error_sending_status_notification] \<and>
   fst (update_afap_estado seed_state ''afap-2'' ''aprobado'' None user_2 True True) =
     Inr \<lparr>message = ''Estado actualizado correctamente'', old_estado = ''pendiente'',
          new_estado = ''aprobado'', email_sent = True\<rparr> \<and>
   find_one (db_afap (snd (update_afap_estado seed_state ''afap-2'' ''aprobado'' None user_2
        True True))) (\<lambda>a. id_afap a = ''afap-2'') = Some (afap_2\<lparr>estado := ''aprobado''\<rparr>)"
proof -
  have r: "role user_2 = Inspector \<or> role user_2 = Administrador"
    by (simp add: user_seed)
  have o: "find_one (db_users seed_state) (\<lambda>x. id_user x = user_id afap_2) = Some user_4"
    by (simp add: find_one_def seed_state_def user_seed user_id_seed)
  have u4: "email user_4 = ''comerciante@email.com''" "nombre user_4 = ''Ana''"
    "apellido user_4 = ''Martinez''"
    by (simp_all add: seed_defs)
  have s: "sent seed_state = []" "logged seed_state = []"
    by (simp_all add: seed_state_def)
  from update_afap_estado_notifications
    [OF owners_exist_seed(1) r find_one_seed_afap(2), of "''aprobado''" None True True]
  obtain owner where ow:
    "find_one (db_users seed_state) (\<lambda>x. id_user x = user_id afap_2) = Some owner"
    "sent (snd (update_afap_estado seed_state ''afap-2'' ''aprobado'' None user_2 True True)) =
        sent seed_state @
        (if ''aprobado'' = ''aprobado'' \<and> estado afap_2 \<noteq> ''aprobado''
         then [Certificate_email (email owner) (nombre owner @ '' '' @ apellido owner)
                 (numero_afap afap_2) afap_2]
         else []) @
        [Status_notification (email owner) (nombre owner @ '' '' @ apellido owner)
           (numero_afap afap_2) (estado afap_2) ''aprobado'' None]"
    "logged (snd (update_afap_estado seed_state ''afap-2'' ''aprobado'' None user_2 True True)) =
        logged seed_state @
        (if ''aprobado'' = ''aprobado'' \<and> estado afap_2 \<noteq> ''aprobado''
         then [if True then Error_sending_certificate_email
               else Info_certificate_email_sent (numero_afap afap_2)]
         else []) @
        (if True then [Error_sending_status_notification] else [])"
    "fst (update_afap_estado seed_state ''afap-2'' ''aprobado'' None user_2 True True) =
        Inr \<lparr>message = ''Estado actualizado correctamente'', old_estado = estado afap_2,
             new_estado = ''aprobado'', email_sent = True\<rparr>"
    "find_one (db_afap (snd (update_afap_estado seed_state ''afap-2'' ''aprobado'' None user_2
        True True))) (\<lambda>a. id_afap a = ''afap-2'') =
        Some (afap_2\<lparr>estado := ''aprobado'',
                 observaciones := (if truthy None then None else observaciones afap_2)\<rparr>)"
    by blast
  from ow(1) o have owner: "owner = user_4"
    by simp
  show ?thesis
    using ow(2-5) unfolding owner
    by (simp add: o s u4 user_seed estado_seed numero_afap_seed find_one_seed_afap truthy_def
        owners_exist_seed)
qed

section \<open>Creating a permit\<close>

text \<open>
  C7, as the specification states it, fails in two places. For the first permit of a
  registry there is no earlier permit, so the number the handler assigns, 1001, is not
  the number of any earlier permit plus one. And the handler reads the clock twice, for
  the expiry first and for \<open>fecha_solicitud\<close>, the stored creation timestamp, after
  it: when the clock has advanced by a microsecond between the two readings, the expiry
  is not the creation timestamp plus 30 days.
\<close>

theorem create_afap_first_number_counterexample:
  "db_afap fresh_state = [] \<and>
   numero_afap (fst (create_afap fresh_state afap_data_1 user_1 ''afap-1'' seed_now seed_now))
     = 1001 \<and>
   numero_afap (fst (create_afap fresh_state afap_data_1 user_1 ''afap-1'' seed_now seed_now)) - 1
     \<notin> set (map numero_afap (db_afap fresh_state)) \<and>
   fecha_solicitud
     (fst (create_afap seed_state afap_data_2 user_4 ''afap-4'' seed_now (seed_now + 1)))
     = seed_now + 1 \<and>
   fecha_vencimiento
     (fst (create_afap seed_state afap_data_2 user_4 ''afap-4'' seed_now (seed_now + 1)))
     = Some (seed_now + timedelta_days 30) \<and>
   fecha_vencimiento
     (fst (create_afap seed_state afap_data_2 user_4 ''afap-4'' seed_now (seed_now + 1)))
     \<noteq> Some (fecha_solicitud
         (fst (create_afap seed_state afap_data_2 user_4 ''afap-4'' seed_now (seed_now + 1)))
       + timedelta_days 30)"
  by (simp add: create_afap_fields create_afap_next_number_def fresh_state_def seed_state_def)

text \<open>
  C7, amended. The permit that \<open>create_afap\<close> returns has \<open>estado = pendiente\<close>, the
  id of the creating user as \<open>user_id\<close>, and as number the greatest number in the
  registry plus one, or 1001 when the registry holds no permit. Its expiry is the
  handler's first clock reading plus 30 days and its \<open>fecha_solicitud\<close> is the second
  reading, so the expiry is \<open>fecha_solicitud\<close> plus 30 days less the time between the
  two readings. The permit carries the submitted data unchanged and is appended to the
  registry.
\<close>

theorem create_afap_result:
  "estado (fst (create_afap s d u i n t)) = ''pendiente'' \<and>
   user_id (fst (create_afap s d u i n t)) = id_user u \<and>
   fecha_vencimiento (fst (create_afap s d u i n t)) = Some (n + timedelta_days 30) \<and>
   fecha_solicitud (fst (create_afap s d u i n t)) = t \<and>
   fecha_vencimiento (fst (create_afap s d u i n t)) =
     Some (fecha_solicitud (fst (create_afap s d u i n t)) + timedelta_days 30 - (t - n)) \<and>
   numero_afap (fst (create_afap s d u i n t)) =
     (if db_afap s = [] then 1001 else Max (numero_afap ` set (db_afap s)) + 1) \<and>
   afap_base.truncate (fst (create_afap s d u i n t)) = d \<and>
   db_afap (snd (create_afap s d u i n t)) = db_afap s @ [fst (create_afap s d u i n t)]"
  by (simp add: create_afap_fields create_afap_next_number_empty create_afap_next_number_Max)

theorem create_afap_result_witness:
  "estado (fst (create_afap seed_state afap_data_2 user_4 ''afap-4'' seed_now (seed_now + 1)))
     = ''pendiente'' \<and>
   user_id (fst (create_afap seed_state afap_data_2 user_4 ''afap-4'' seed_now (seed_now + 1)))
     = ''user-4'' \<and>
   fecha_vencimiento
     (fst (create_afap seed_state afap_data_2 user_4 ''afap-4'' seed_now (seed_now + 1)))
     = Some (seed_now + 2592000000000) \<and>
   fecha_solicitud
     (fst (create_afap seed_state afap_data_2 user_4 ''afap-4'' seed_now (seed_now + 1)))
     = seed_now + 1 \<and>
   numero_afap (fst (create_afap seed_state afap_data_2 user_4 ''afap-4'' seed_now (seed_now + 1)))
     = 1004"
proof -
  have m: "Max (numero_afap ` set (db_afap seed_state)) = 1003"
    by (simp add: seed_state_def numero_afap_seed)
  have ne: "db_afap seed_state \<noteq> []"
    by (simp add: seed_state_def)
  show ?thesis
    using create_afap_result
      [of seed_state afap_data_2 user_4 "''afap-4''" seed_now "seed_now + 1"]
    by (simp add: m ne user_seed timedelta_days_def)
qed

section \<open>Permit numbers\<close>

text \<open>
  C1, as the specification states it, fails: in \<open>interleaved_example\<close> both handlers
  read the greatest number, 1003, before either inserts, and both new permits, with
  different ids, carry the number 1004.
\<close>

theorem create_afap_interleaved_counterexample:
  "id_afap (fst interleaved_example) = ''afap-4'' \<and>
   id_afap (fst (snd interleaved_example)) = ''afap-5'' \<and>
   numero_afap (fst interleaved_example) = 1004 \<and>
   numero_afap (fst (snd interleaved_example)) = 1004 \<and>
   map numero_afap (db_afap (snd (snd interleaved_example))) = [1001, 1002, 1003, 1004, 1004] \<and>
   \<not> distinct (map numero_afap (db_afap (snd (snd interleaved_example)))) \<and>
   \<not> sorted_wrt (<) (map numero_afap (db_afap (snd (snd interleaved_example))))"
  by (simp add: interleaved_example_def create_afap_interleaved_def Let_def next_seed
      create_afap_insert_def insert_one_def afap_base.extend_def afap.fields_def)
     (simp add: seed_state_def numero_afap_seed)

text \<open>
  C1, amended. Start from a registry whose numbers increase strictly in the order of
  insertion (the empty one, or the demo data), and let any requests be handled one after
  the other. Then the numbers still increase strictly in the order of insertion, no two
  permits carry the same number, and the next \<open>create_afap\<close> assigns a number greater
  than every number in the registry: the greatest one plus one, or 1001 when there is no
  permit.
\<close>

theorem numero_afap_increasing_when_sequential:
  "sorted_wrt (<) (map numero_afap (db_afap s)) \<Longrightarrow>
   sorted_wrt (<) (map numero_afap (db_afap (run_requests s requests))) \<and>
   distinct (map numero_afap (db_afap (run_requests s requests))) \<and>
   (\<forall>p \<in> set (db_afap (run_requests s requests)).
      numero_afap p < numero_afap (fst (create_afap (run_requests s requests) d u i n t))) \<and>
   numero_afap (fst (create_afap (run_requests s requests) d u i n t)) =
     (if db_afap (run_requests s requests) = [] then 1001
      else Max (numero_afap ` set (db_afap (run_requests s requests))) + 1)"
proof -
  assume "sorted_wrt (<) (map numero_afap (db_afap s))"
  then have st: "sorted_wrt (<) (map numero_afap (db_afap (run_requests s requests)))"
    by (rule run_requests_sorted)
  then have "distinct (map numero_afap (db_afap (run_requests s requests)))"
    by (simp add: strict_sorted_iff)
  with st show ?thesis
    by (simp add: create_afap_fields create_afap_next_number_greater
        create_afap_next_number_empty create_afap_next_number_Max)
qed

theorem numero_afap_increasing_when_sequential_witness:
  "sorted_wrt (<) (map numero_afap (db_afap seed_state)) \<and>
   map numero_afap (db_afap (run_requests seed_state
     [Create_afap afap_data_2 user_4 ''afap-4'' seed_now seed_now,
      Update_afap_estado ''afap-4'' ''aprobado'' None user_2 False False]))
     = [1001, 1002, 1003, 1004] \<and>
   distinct (map numero_afap (db_afap (run_requests seed_state
     [Create_afap afap_data_2 user_4 ''afap-4'' seed_now seed_now,
      Update_afap_estado ''afap-4'' ''aprobado'' None user_2 False False]))) \<and>
   numero_afap (fst (create_afap (run_requests seed_state
     [Create_afap afap_data_2 user_4 ''afap-4'' seed_now seed_now,
      Update_afap_estado ''afap-4'' ''aprobado'' None user_2 False False])
     afap_data_1 user_1 ''afap-5'' seed_now seed_now)) = 1005"
proof -
  let ?s = "run_requests seed_state
     [Create_afap afap_data_2 user_4 ''afap-4'' seed_now seed_now,
      Update_afap_estado ''afap-4'' ''aprobado'' None user_2 False False]"
  have numbers: "map numero_afap (db_afap ?s) = [1001, 1002, 1003, 1004]"
    by (simp add: run_requests_def update_afap_estado_numbers create_afap_fields next_seed)
       (simp add: seed_state_def numero_afap_seed)
  have "numero_afap ` set (db_afap ?s) = set (map numero_afap (db_afap ?s))"
    by simp
  then have img: "numero_afap ` set (db_afap ?s) = {1001, 1002, 1003, 1004}"
    unfolding numbers by simp
  have ne: "db_afap ?s \<noteq> []"
    using numbers by auto
  have mx: "Max (numero_afap ` set (db_afap ?s)) = 1004"
    unfolding img by simp
  show ?thesis
    using numero_afap_increasing_when_sequential
      [OF seed_sorted, of "[Create_afap afap_data_2 user_4 ''afap-4'' seed_now seed_now,
         Update_afap_estado ''afap-4'' ''aprobado'' None user_2 False False]"
        afap_data_1 user_1 "''afap-5''" seed_now seed_now]
    by (simp add: seed_sorted numbers ne mx)
qed

section \<open>Listing permits\<close>

text \<open>
  C5, as the specification states it, fails in two ways. The handler reads at most 1000
  documents from the cursor: in \<open>crowded_state\<close>, with 1001 permits that all belong to
  \<open>user-4\<close>, the administrator gets 1000 of the 1001 permits and the owner gets 1000
  of the 1001 permits that are theirs. And the list is validated against the
  \<^verbatim>\<open>AFAP\<close> model before it is returned: in \<open>clausurado_state\<close>, where one
  permit carries an \<open>estado\<close> outside the model's four values, the administrator and
  the owner of that permit get status 500 and no list.
\<close>

theorem get_afaps_all_counterexample:
  "distinct (map id_afap (db_afap crowded_state)) \<and>
   length (db_afap crowded_state) = 1001 \<and>
   role user_3 = Administrador \<and>
   get_afaps crowded_state user_3 = Inr (take 1000 (db_afap crowded_state)) \<and>
   get_afaps crowded_state user_3 \<noteq> Inr (db_afap crowded_state) \<and>
   role user_4 = Ciudadano \<and>
   length (filter (\<lambda>a. user_id a = id_user user_4) (db_afap crowded_state)) = 1001 \<and>
   get_afaps crowded_state user_4 = Inr (take 1000 (db_afap crowded_state)) \<and>
   get_afaps crowded_state user_4
     \<noteq> Inr (filter (\<lambda>a. user_id a = id_user user_4) (db_afap crowded_state)) \<and>
   db_afap clausurado_state = [afap_1, afap_2\<lparr>estado := ''clausurado''\<rparr>, afap_3] \<and>
   get_afaps clausurado_state user_3 = Inl InternalError \<and>
   get_afaps clausurado_state user_3 \<noteq> Inr (db_afap clausurado_state) \<and>
   get_afaps clausurado_state user_4 = Inl InternalError \<and>
   get_afaps clausurado_state user_4
     \<noteq> Inr (filter (\<lambda>a. user_id a = id_user user_4) (db_afap clausurado_state))"
proof -
  have valid: "list_all (\<lambda>a. estado a \<in> set AFAP_estado_literal) (take 1000 (many_afaps 1001))"
    by (rule list_all_take) (rule many_afaps_valid)
  have checked: "response_model_List_AFAP (take 1000 (many_afaps 1001))
      = Inr (take 1000 (many_afaps 1001))"
    unfolding response_model_List_AFAP_def using valid by (rule if_P)
  have "role user_3 = Inspector \<or> role user_3 = Administrador"
    by (simp add: user_seed)
  then have "get_afaps crowded_state user_3
      = response_model_List_AFAP (take 1000 (db_afap crowded_state))"
    by (rule get_afaps_staff)
  then have a: "get_afaps crowded_state user_3 = Inr (take 1000 (db_afap crowded_state))"
    by (simp only: crowded_db checked)
  have "get_afaps crowded_state user_4
      = response_model_List_AFAP
          (take 1000 (filter (\<lambda>a. user_id a = id_user user_4) (db_afap crowded_state)))"
    by (rule get_afaps_ciudadano) (rule user_seed)
  then have c: "get_afaps crowded_state user_4 = Inr (take 1000 (db_afap crowded_state))"
    by (simp only: crowded_db user_seed many_afaps_owned checked)
  have o: "filter (\<lambda>a. user_id a = id_user user_4) (db_afap crowded_state)
      = db_afap crowded_state"
    by (simp only: crowded_db user_seed many_afaps_owned)
  have len: "length (db_afap crowded_state) = 1001"
    by (simp only: crowded_db length_many)
  have short: "take 1000 (db_afap crowded_state) \<noteq> db_afap crowded_state"
  proof
    assume "take 1000 (db_afap crowded_state) = db_afap crowded_state"
    then have "length (take 1000 (db_afap crowded_state)) = length (db_afap crowded_state)"
      by (rule arg_cong)
    then show False
      by (simp only: length_take len)
  qed
  have bad: "\<not> list_all (\<lambda>a. estado a \<in> set AFAP_estado_literal) (db_afap clausurado_state)"
    by (simp add: clausurado_db AFAP_estado_literal_def)
  have bad_own: "\<not> list_all (\<lambda>a. estado a \<in> set AFAP_estado_literal)
      (filter (\<lambda>a. user_id a = id_user user_4) (db_afap clausurado_state))"
    by (simp add: clausurado_db AFAP_estado_literal_def user_seed user_id_seed)
  have e3: "get_afaps clausurado_state user_3 = Inl InternalError"
    using bad
    by (simp add: get_afaps_staff user_seed response_model_List_AFAP_def clausurado_db)
  have e4: "get_afaps clausurado_state user_4 = Inl InternalError"
    using bad_own
    by (simp add: get_afaps_ciudadano user_seed response_model_List_AFAP_def clausurado_db)
  have d: "distinct (map id_afap (db_afap crowded_state))"
    by (simp only: crowded_db many_afaps_distinct)
  show ?thesis
    unfolding a c e3 e4 o
    using d len short clausurado_db by (simp add: user_seed)
qed

text \<open>
  C5, amended. A citizen's list is the first 1000, in the order of the store, of the
  permits whose \<open>user_id\<close> is their own id, and whatever list a citizen gets holds no
  permit of another user; the list of an inspector or an administrator is the first 1000
  of all permits. The list is returned when each permit in it carries one of the four
  values of \<open>estado\<close>, and the call fails with status 500 otherwise. When there are at
  most 1000 such permits and each carries one of the four values, the result is exactly
  the owned permits, respectively all permits.
\<close>

theorem get_afaps_scope:
  "(role u = Ciudadano \<longrightarrow>
      get_afaps s u =
        (if list_all (\<lambda>a. estado a \<in> set AFAP_estado_literal)
              (take 1000 (filter (\<lambda>a. user_id a = id_user u) (db_afap s)))
         then Inr (take 1000 (filter (\<lambda>a. user_id a = id_user u) (db_afap s)))
         else Inl InternalError)) \<and>
   (role u = Ciudadano \<and> get_afaps s u = Inr afaps \<longrightarrow>
      (\<forall>a \<in> set afaps. user_id a = id_user u)) \<and>
   (role u = Inspector \<or> role u = Administrador \<longrightarrow>
      get_afaps s u =
        (if list_all (\<lambda>a. estado a \<in> set AFAP_estado_literal) (take 1000 (db_afap s))
         then Inr (take 1000 (db_afap s))
         else Inl InternalError)) \<and>
   (role u = Ciudadano \<and>
    length (filter (\<lambda>a. user_id a = id_user u) (db_afap s)) \<le> 1000 \<and>
    list_all (\<lambda>a. estado a \<in> set AFAP_estado_literal)
      (filter (\<lambda>a. user_id a = id_user u) (db_afap s)) \<longrightarrow>
      get_afaps s u = Inr (filter (\<lambda>a. user_id a = id_user u) (db_afap s))) \<and>
   ((role u = Inspector \<or> role u = Administrador) \<and> length (db_afap s) \<le> 1000 \<and>
    list_all (\<lambda>a. estado a \<in> set AFAP_estado_literal) (db_afap s) \<longrightarrow>
      get_afaps s u = Inr (db_afap s))"
proof (intro conjI impI ballI)
  assume "role u = Ciudadano"
  then show "get_afaps s u =
      (if list_all (\<lambda>a. estado a \<in> set AFAP_estado_literal)
            (take 1000 (filter (\<lambda>a. user_id a = id_user u) (db_afap s)))
       then Inr (take 1000 (filter (\<lambda>a. user_id a = id_user u) (db_afap s)))
       else Inl InternalError)"
    by (simp only: get_afaps_ciudadano response_model_List_AFAP_def)
next
  fix a
  assume h: "role u = Ciudadano \<and> get_afaps s u = Inr afaps" and a: "a \<in> set afaps"
  from h have r: "role u = Ciudadano" and g: "get_afaps s u = Inr afaps"
    by blast+
  from g have "response_model_List_AFAP
      (take 1000 (filter (\<lambda>a. user_id a = id_user u) (db_afap s))) = Inr afaps"
    by (simp only: get_afaps_ciudadano [OF r])
  then have "afaps = take 1000 (filter (\<lambda>a. user_id a = id_user u) (db_afap s))"
    by (simp add: response_model_List_AFAP_def split: if_splits)
  with a have "a \<in> set (filter (\<lambda>a. user_id a = id_user u) (db_afap s))"
    by (auto dest: in_set_takeD)
  then show "user_id a = id_user u"
    by simp
next
  assume "role u = Inspector \<or> role u = Administrador"
  then show "get_afaps s u =
      (if list_all (\<lambda>a. estado a \<in> set AFAP_estado_literal) (take 1000 (db_afap s))
       then Inr (take 1000 (db_afap s))
       else Inl InternalError)"
    by (simp only: get_afaps_staff response_model_List_AFAP_def)
next
  assume "role u = Ciudadano \<and>
    length (filter (\<lambda>a. user_id a = id_user u) (db_afap s)) \<le> 1000 \<and>
    list_all (\<lambda>a. estado a \<in> set AFAP_estado_literal)
      (filter (\<lambda>a. user_id a = id_user u) (db_afap s))"
  then show "get_afaps s u = Inr (filter (\<lambda>a. user_id a = id_user u) (db_afap s))"
    by (simp only: get_afaps_ciudadano take_all response_model_List_AFAP_def if_True)
next
  assume "(role u = Inspector \<or> role u = Administrador) \<and> length (db_afap s) \<le> 1000 \<and>
    list_all (\<lambda>a. estado a \<in> set AFAP_estado_literal) (db_afap s)"
  then show "get_afaps s u = Inr (db_afap s)"
    by (simp only: get_afaps_staff take_all response_model_List_AFAP_def if_True)
qed

theorem get_afaps_scope_witness:
  "role user_1 = Ciudadano \<and>
   length (filter (\<lambda>a. user_id a = id_user user_1) (db_afap seed_state)) \<le> 1000 \<and>
   list_all (\<lambda>a. estado a \<in> set AFAP_estado_literal)
     (filter (\<lambda>a. user_id a = id_user user_1) (db_afap seed_state)) \<and>
   get_afaps seed_state user_1 = Inr [afap_1, afap_3] \<and>
   role user_2 = Inspector \<and> length (db_afap seed_state) \<le> 1000 \<and>
   list_all (\<lambda>a. estado a \<in> set AFAP_estado_literal) (db_afap seed_state) \<and>
   get_afaps seed_state user_2 = Inr [afap_1, afap_2, afap_3]"
proof -
  have f: "filter (\<lambda>a. user_id a = id_user user_1) (db_afap seed_state) = [afap_1, afap_3]"
    by (simp add: seed_state_def user_seed user_id_seed)
  have d: "db_afap seed_state = [afap_1, afap_2, afap_3]"
    by (simp add: seed_state_def)
  have h1: "role user_1 = Ciudadano \<and>
      length (filter (\<lambda>a. user_id a = id_user user_1) (db_afap seed_state)) \<le> 1000 \<and>
      list_all (\<lambda>a. estado a \<in> set AFAP_estado_literal)
        (filter (\<lambda>a. user_id a = id_user user_1) (db_afap seed_state))"
    unfolding f by (simp add: user_seed estado_seed AFAP_estado_literal_def)
  have h2: "(role user_2 = Inspector \<or> role user_2 = Administrador) \<and>
      length (db_afap seed_state) \<le> 1000 \<and>
      list_all (\<lambda>a. estado a \<in> set AFAP_estado_literal) (db_afap seed_state)"
    unfolding d by (simp add: user_seed estado_seed AFAP_estado_literal_def)
  have r1: "get_afaps seed_state user_1 = Inr [afap_1, afap_3]"
    using get_afaps_scope [of user_1 seed_state] h1 unfolding f by blast
  have r2: "get_afaps seed_state user_2 = Inr [afap_1, afap_2, afap_3]"
    using get_afaps_scope [of user_2 seed_state] h2 unfolding d by blast
  show ?thesis
    using h1 h2 r1 r2 by (simp add: user_seed)
qed

section \<open>Listing inspections\<close>

text \<open>
  C9, as the specification states it, fails: the handler reads at most 1000 inspections
  from the cursor. In \<open>crowded_state\<close> the 1001 inspections are all assigned to the
  inspector \<open>user-2\<close> and all belong to a permit of the citizen \<open>user-4\<close>; the
  administrator, that inspector and that citizen each get 1000 of them.
\<close>

theorem get_inspecciones_all_counterexample:
  "distinct (map id_insp (db_inspecciones crowded_state)) \<and>
   length (db_inspecciones crowded_state) = 1001 \<and>
   role user_3 = Administrador \<and>
   length (get_inspecciones crowded_state user_3) = 1000 \<and>
   role user_2 = Inspector \<and>
   length (filter (\<lambda>i. inspector_id i = id_user user_2) (db_inspecciones crowded_state)) = 1001 \<and>
   length (get_inspecciones crowded_state user_2) = 1000 \<and>
   role user_4 = Ciudadano \<and>
   length (filter
     (\<lambda>i. \<exists>a \<in> set (db_afap crowded_state). user_id a = id_user user_4 \<and> id_afap a = afap_id i)
     (db_inspecciones crowded_state)) = 1001 \<and>
   length (get_inspecciones crowded_state user_4) = 1000"
proof -
  have dist: "distinct (map id_insp (db_inspecciones crowded_state))"
    unfolding crowded_db by (rule many_inspecciones_distinct)
  have len: "length (db_inspecciones crowded_state) = 1001"
    unfolding crowded_db by simp
  have adm: "length (get_inspecciones crowded_state user_3) = 1000"
    by (simp add: get_inspecciones_administrador user_seed crowded_db)
  have insp_all: "length (filter (\<lambda>i. inspector_id i = id_user user_2)
      (db_inspecciones crowded_state)) = 1001"
    by (simp add: user_seed crowded_db many_inspecciones_fields)
  have insp: "length (get_inspecciones crowded_state user_2) = 1000"
    by (simp add: get_inspecciones_inspector user_seed crowded_db many_inspecciones_fields)
  have cit_all: "length (filter
     (\<lambda>i. \<exists>a \<in> set (db_afap crowded_state). user_id a = id_user user_4 \<and> id_afap a = afap_id i)
     (db_inspecciones crowded_state)) = 1001"
    unfolding crowded_db user_seed by (simp only: many_inspecciones_of_owner length_many)
  have cit: "length (get_inspecciones crowded_state user_4) = 1000"
    unfolding get_inspecciones_ciudadano [OF user_seed(8)] crowded_db user_seed
    by (simp only: many_inspecciones_of_first_thousand length_take length_many)
  show ?thesis
    using dist len adm insp_all insp cit_all cit user_seed(6,7,8) by blast
qed

text \<open>
  C9, amended. An inspector gets the first 1000, in the order of the store, of the
  inspections whose \<open>inspector_id\<close> is their id; an administrator the first 1000 of all
  inspections; a citizen the first 1000 of the inspections whose \<open>afap_id\<close> is the id
  of one of the first 1000 permits they own. When at most 1000 documents match in each
  of these reads, the list is exactly the inspections with the requester's
  \<open>inspector_id\<close>, all inspections, or the inspections of the permits the requester
  owns.
\<close>

theorem get_inspecciones_scope:
  "(role u = Inspector \<longrightarrow>
      get_inspecciones s u =
        take 1000 (filter (\<lambda>i. inspector_id i = id_user u) (db_inspecciones s))) \<and>
   (role u = Administrador \<longrightarrow> get_inspecciones s u = take 1000 (db_inspecciones s)) \<and>
   (role u = Ciudadano \<longrightarrow>
      get_inspecciones s u =
        take 1000 (filter
          (\<lambda>i. afap_id i \<in> id_afap `
             set (take 1000 (filter (\<lambda>a. user_id a = id_user u) (db_afap s))))
          (db_inspecciones s))) \<and>
   (role u = Inspector \<and>
    length (filter (\<lambda>i. inspector_id i = id_user u) (db_inspecciones s)) \<le> 1000 \<longrightarrow>
      get_inspecciones s u = filter (\<lambda>i. inspector_id i = id_user u) (db_inspecciones s)) \<and>
   (role u = Administrador \<and> length (db_inspecciones s) \<le> 1000 \<longrightarrow>
      get_inspecciones s u = db_inspecciones s) \<and>
   (role u = Ciudadano \<and>
    length (filter (\<lambda>a. user_id a = id_user u) (db_afap s)) \<le> 1000 \<and>
    length (filter (\<lambda>i. \<exists>a \<in> set (db_afap s). user_id a = id_user u \<and> id_afap a = afap_id i)
              (db_inspecciones s)) \<le> 1000 \<longrightarrow>
      get_inspecciones s u =
        filter (\<lambda>i. \<exists>a \<in> set (db_afap s). user_id a = id_user u \<and> id_afap a = afap_id i)
          (db_inspecciones s))"
proof (intro conjI impI)
  assume "role u = Inspector"
  then show "get_inspecciones s u =
      take 1000 (filter (\<lambda>i. inspector_id i = id_user u) (db_inspecciones s))"
    by (rule get_inspecciones_inspector)
next
  assume "role u = Administrador"
  then show "get_inspecciones s u = take 1000 (db_inspecciones s)"
    by (rule get_inspecciones_administrador)
next
  assume "role u = Ciudadano"
  then show "get_inspecciones s u =
      take 1000 (filter
        (\<lambda>i. afap_id i \<in> id_afap `
           set (take 1000 (filter (\<lambda>a. user_id a = id_user u) (db_afap s))))
        (db_inspecciones s))"
    by (rule get_inspecciones_ciudadano)
next
  assume "role u = Inspector \<and>
    length (filter (\<lambda>i. inspector_id i = id_user u) (db_inspecciones s)) \<le> 1000"
  then show "get_inspecciones s u =
      filter (\<lambda>i. inspector_id i = id_user u) (db_inspecciones s)"
    by (simp only: get_inspecciones_inspector take_all)
next
  assume "role u = Administrador \<and> length (db_inspecciones s) \<le> 1000"
  then show "get_inspecciones s u = db_inspecciones s"
    by (simp only: get_inspecciones_administrador take_all)
next
  assume h: "role u = Ciudadano \<and>
    length (filter (\<lambda>a. user_id a = id_user u) (db_afap s)) \<le> 1000 \<and>
    length (filter (\<lambda>i. \<exists>a \<in> set (db_afap s). user_id a = id_user u \<and> id_afap a = afap_id i)
              (db_inspecciones s)) \<le> 1000"
  then have own: "take 1000 (filter (\<lambda>a. user_id a = id_user u) (db_afap s)) =
      filter (\<lambda>a. user_id a = id_user u) (db_afap s)"
    by (simp only: take_all)
  have "get_inspecciones s u =
      take 1000 (filter
        (\<lambda>i. \<exists>a \<in> set (db_afap s). user_id a = id_user u \<and> id_afap a = afap_id i)
        (db_inspecciones s))"
    using h by (simp only: get_inspecciones_ciudadano own owned_ids)
  with h show "get_inspecciones s u =
      filter (\<lambda>i. \<exists>a \<in> set (db_afap s). user_id a = id_user u \<and> id_afap a = afap_id i)
        (db_inspecciones s)"
    by (simp only: take_all)
qed

theorem get_inspecciones_scope_witness:
  "role user_2 = Inspector \<and>
   length (filter (\<lambda>i. inspector_id i = id_user user_2) (db_inspecciones seed_state)) \<le> 1000 \<and>
   get_inspecciones seed_state user_2 = [insp_1] \<and>
   role user_3 = Administrador \<and> length (db_inspecciones seed_state) \<le> 1000 \<and>
   get_inspecciones seed_state user_3 = [insp_1] \<and>
   role user_1 = Ciudadano \<and>
   length (filter (\<lambda>a. user_id a = id_user user_1) (db_afap seed_state)) \<le> 1000 \<and>
   get_inspecciones seed_state user_1 = [insp_1] \<and>
   role user_4 = Ciudadano \<and>
   get_inspecciones seed_state user_4 = []"
proof -
  have d: "db_inspecciones seed_state = [insp_1]"
    by (simp add: seed_state_def)
  have i1: "inspector_id insp_1 = ''user-2''" "afap_id insp_1 = ''afap-3''"
    by (simp_all add: insp_1_def)
  have fi: "filter (\<lambda>i. inspector_id i = id_user user_2) (db_inspecciones seed_state) = [insp_1]"
    by (simp add: d i1 user_seed)
  have fa1: "filter (\<lambda>a. user_id a = id_user user_1) (db_afap seed_state) = [afap_1, afap_3]"
    by (simp add: seed_state_def user_seed user_id_seed)
  have fa4: "filter (\<lambda>a. user_id a = id_user user_4) (db_afap seed_state) = [afap_2]"
    by (simp add: seed_state_def user_seed user_id_seed)
  have fc1: "filter
      (\<lambda>i. \<exists>a \<in> set (db_afap seed_state). user_id a = id_user user_1 \<and> id_afap a = afap_id i)
      (db_inspecciones seed_state) = [insp_1]"
    by (simp add: d i1 seed_state_def user_seed user_id_seed id_afap_seed)
  have fc4: "filter
      (\<lambda>i. \<exists>a \<in> set (db_afap seed_state). user_id a = id_user user_4 \<and> id_afap a = afap_id i)
      (db_inspecciones seed_state) = []"
    by (simp add: d i1 seed_state_def user_seed user_id_seed id_afap_seed)
  have h2: "role user_2 = Inspector \<and>
      length (filter (\<lambda>i. inspector_id i = id_user user_2) (db_inspecciones seed_state)) \<le> 1000"
    unfolding fi by (simp add: user_seed)
  have h3: "role user_3 = Administrador \<and> length (db_inspecciones seed_state) \<le> 1000"
    unfolding d by (simp add: user_seed)
  have h1: "role user_1 = Ciudadano \<and>
      length (filter (\<lambda>a. user_id a = id_user user_1) (db_afap seed_state)) \<le> 1000 \<and>
      length (filter
        (\<lambda>i. \<exists>a \<in> set (db_afap seed_state). user_id a = id_user user_1 \<and> id_afap a = afap_id i)
        (db_inspecciones seed_state)) \<le> 1000"
    unfolding fa1 fc1 by (simp add: user_seed)
  have h4: "role user_4 = Ciudadano \<and>
      length (filter (\<lambda>a. user_id a = id_user user_4) (db_afap seed_state)) \<le> 1000 \<and>
      length (filter
        (\<lambda>i. \<exists>a \<in> set (db_afap seed_state). user_id a = id_user user_4 \<and> id_afap a = afap_id i)
        (db_inspecciones seed_state)) \<le> 1000"
    unfolding fa4 fc4 by (simp add: user_seed)
  have r2: "get_inspecciones seed_state user_2 = [insp_1]"
    using get_inspecciones_scope [of user_2 seed_state] h2 unfolding fi by blast
  have r3: "get_inspecciones seed_state user_3 = [insp_1]"
    using get_inspecciones_scope [of user_3 seed_state] h3 unfolding d by blast
  have r1: "get_inspecciones seed_state user_1 = [insp_1]"
    using get_inspecciones_scope [of user_1 seed_state] h1 unfolding fc1 by blast
  have r4: "get_inspecciones seed_state user_4 = []"
    using get_inspecciones_scope [of user_4 seed_state] h4 unfolding fc4 by blast
  show ?thesis
    using h1 h2 h3 h4 r1 r2 r3 r4 by blast
qed

end
